theory Spec2Isabelle
  imports Complex_Main "HOL-Library.Word"
begin

unbundle bit_operations_syntax

section \<open>Go values\<close>

text \<open>
  A Go \<open>string\<close> and a \<open>[]byte\<close> are byte sequences; both are modelled as
  \<^typ>\<open>string\<close> (a list of 8-bit characters). A \<open>[]byte\<close> that may be
  \<open>nil\<close> is a \<^typ>\<open>string option\<close>, \<open>None\<close> being the nil slice.
  Where the cryptographic primitives need the numeric value of a byte, it is an
  \<^typ>\<open>8 word\<close>.
\<close>

type_synonym u8 = "8 word"
type_synonym u32 = "32 word"
type_synonym u64 = "64 word"

definition bytes_of_string :: "string \<Rightarrow> u8 list" where
  "bytes_of_string s = map of_char s"

text \<open>The conversion \<open>string(b)\<close> of a possibly nil byte slice.\<close>

fun string_of_bytes :: "string option \<Rightarrow> string" where
  "string_of_bytes None = []"
| "string_of_bytes (Some b) = b"

subsection \<open>strconv.FormatInt (base 10) and the \<open>%d\<close> verb\<close>

definition digit_char :: "int \<Rightarrow> char" where
  "digit_char d = char_of (48 + d)"

text \<open>The decimal digits of a non-negative integer, most significant first.\<close>

function nat_digits :: "int \<Rightarrow> string" where
  "nat_digits n =
     (if n < 10 then [digit_char n] else nat_digits (n div 10) @ [digit_char (n mod 10)])"
  by pat_completeness auto
termination
  by (relation "measure nat") auto

declare nat_digits.simps [simp del]

definition FormatInt :: "int \<Rightarrow> string" where
  "FormatInt i = (if i < 0 then CHR ''-'' # nat_digits (- i) else nat_digits i)"

section \<open>Standard-library primitives used by the HMAC signer\<close>

subsection \<open>encoding/base64, StdEncoding\<close>

definition b64_alphabet :: string where
  "b64_alphabet = ''ABCDEFGHIJKLMNOPQRSTUVWXYZabcdefghijklmnopqrstuvwxyz0123456789+/''"

fun index_of :: "'a \<Rightarrow> 'a list \<Rightarrow> nat option" where
  "index_of c [] = None"
| "index_of c (x # xs) = (if c = x then Some 0 else map_option Suc (index_of c xs))"

definition b64_value :: "char \<Rightarrow> u32 option" where
  "b64_value c = map_option of_nat (index_of c b64_alphabet)"

definition b64_char :: "u8 \<Rightarrow> char" where
  "b64_char v = b64_alphabet ! unat (v AND 63)"

fun EncodeToString :: "u8 list \<Rightarrow> string" where
  "EncodeToString (a # b # c # r) =
     [b64_char (drop_bit 2 a),
      b64_char (push_bit 4 (a AND 3) OR drop_bit 4 b),
      b64_char (push_bit 2 (b AND 15) OR drop_bit 6 c),
      b64_char (c AND 63)] @ EncodeToString r"
| "EncodeToString [a, b] =
     [b64_char (drop_bit 2 a),
      b64_char (push_bit 4 (a AND 3) OR drop_bit 4 b),
      b64_char (push_bit 2 (b AND 15)),
      CHR ''='']"
| "EncodeToString [a] =
     [b64_char (drop_bit 2 a), b64_char (push_bit 4 (a AND 3)), CHR ''='', CHR ''='']"
| "EncodeToString [] = []"

definition is_newline :: "char \<Rightarrow> bool" where
  "is_newline c \<longleftrightarrow> c = CHR 0x0A \<or> c = CHR 0x0D"

text \<open>
  The bytes of one quantum: the sextets read so far are packed from the top of a 24-bit
  value, and a quantum of \<open>n\<close> sextets yields \<open>n - 1\<close> bytes. StdEncoding is
  not strict, so the unused low bits of a padded quantum are not inspected.
\<close>

definition quantum_bytes :: "u32 list \<Rightarrow> u8 list" where
  "quantum_bytes q =
     (let padded = q @ replicate (4 - length q) 0;
          val = push_bit 18 (padded ! 0) OR push_bit 12 (padded ! 1)
                OR push_bit 6 (padded ! 2) OR (padded ! 3)
      in take (length q - 1) [ucast (drop_bit 16 val), ucast (drop_bit 8 val), ucast val])"

text \<open>
  \<open>DecodeString\<close>, with \<open>None\<close> for a non-nil error. Carriage returns and
  line feeds are skipped everywhere; a quantum holds four alphabet characters, or two or
  three followed by the padding that completes it, after which only newlines may follow;
  input that ends inside a quantum is corrupt.
\<close>

fun decode_from :: "u32 list \<Rightarrow> string \<Rightarrow> u8 list option" where
  "decode_from q [] = (if q = [] then Some [] else None)"
| "decode_from q (c # cs) =
     (case b64_value c of
        Some v \<Rightarrow>
          (if length q = 3
           then map_option ((@) (quantum_bytes (q @ [v]))) (decode_from [] cs)
           else decode_from (q @ [v]) cs)
      | None \<Rightarrow>
          (if is_newline c then decode_from q cs
           else if c \<noteq> CHR ''='' then None
           else if length q = 2 then
             (case dropWhile is_newline cs of
                [] \<Rightarrow> None
              | c' # cs' \<Rightarrow>
                  (if c' = CHR ''='' \<and> dropWhile is_newline cs' = []
                   then Some (quantum_bytes q) else None))
           else if length q = 3 then
             (if dropWhile is_newline cs = [] then Some (quantum_bytes q) else None)
           else None))"

definition DecodeString :: "string \<Rightarrow> u8 list option" where
  "DecodeString s = decode_from [] s"

subsection \<open>crypto/sha256 (FIPS 180-4)\<close>

definition rotr :: "nat \<Rightarrow> u32 \<Rightarrow> u32" where
  "rotr n x = drop_bit n x OR push_bit (32 - n) x"

definition Ch :: "u32 \<Rightarrow> u32 \<Rightarrow> u32 \<Rightarrow> u32" where
  "Ch x y z = (x AND y) XOR (NOT x AND z)"

definition Maj :: "u32 \<Rightarrow> u32 \<Rightarrow> u32 \<Rightarrow> u32" where
  "Maj x y z = (x AND y) XOR (x AND z) XOR (y AND z)"

definition bsig0 :: "u32 \<Rightarrow> u32" where
  "bsig0 x = rotr 2 x XOR rotr 13 x XOR rotr 22 x"

definition bsig1 :: "u32 \<Rightarrow> u32" where
  "bsig1 x = rotr 6 x XOR rotr 11 x XOR rotr 25 x"

definition ssig0 :: "u32 \<Rightarrow> u32" where
  "ssig0 x = rotr 7 x XOR rotr 18 x XOR drop_bit 3 x"

definition ssig1 :: "u32 \<Rightarrow> u32" where
  "ssig1 x = rotr 17 x XOR rotr 19 x XOR drop_bit 10 x"

text \<open>
  The round constants (the first 32 bits of the fractional parts of the cube roots of the
  first 64 primes) and the initial hash value (likewise, of the square roots of the first
  8 primes), in decimal.
\<close>

definition K256 :: "u32 list" where
  "K256 = [
  1116352408, 1899447441, 3049323471, 3921009573, 961987163, 1508970993, 2453635748, 2870763221,
  3624381080, 310598401, 607225278, 1426881987, 1925078388, 2162078206, 2614888103, 3248222580,
  3835390401, 4022224774, 264347078, 604807628, 770255983, 1249150122, 1555081692, 1996064986,
  2554220882, 2821834349, 2952996808, 3210313671, 3336571891, 3584528711, 113926993, 338241895,
  666307205, 773529912, 1294757372, 1396182291, 1695183700, 1986661051, 2177026350, 2456956037,
  2730485921, 2820302411, 3259730800, 3345764771, 3516065817, 3600352804, 4094571909, 275423344,
  430227734, 506948616, 659060556, 883997877, 958139571, 1322822218, 1537002063, 1747873779,
  1955562222, 2024104815, 2227730452, 2361852424, 2428436474, 2756734187, 3204031479, 3329325298]"

definition H256 :: "u32 list" where
  "H256 = [1779033703, 3144134277, 1013904242, 2773480762,
           1359893119, 2600822924, 528734635, 1541459225]"

text \<open>Big-endian 32-bit words of a block.\<close>

fun be32 :: "u8 list \<Rightarrow> u32 list" where
  "be32 (a # b # c # d # r) =
     (push_bit 24 (ucast a) OR push_bit 16 (ucast b) OR push_bit 8 (ucast c) OR ucast d) # be32 r"
| "be32 _ = []"

text \<open>
  The message schedule, produced from a sliding window of the last sixteen words:
  \<open>W\<^sub>t = \<sigma>\<^sub>1(W\<^sub>t\<^sub>-\<^sub>2) + W\<^sub>t\<^sub>-\<^sub>7 + \<sigma>\<^sub>0(W\<^sub>t\<^sub>-\<^sub>1\<^sub>5) + W\<^sub>t\<^sub>-\<^sub>1\<^sub>6\<close>.
\<close>

fun schedule :: "nat \<Rightarrow> u32 list \<Rightarrow> u32 list" where
  "schedule 0 w = []"
| "schedule (Suc n) (w0 # w1 # r) =
     w0 # schedule n ((w1 # r) @ [ssig1 (r ! 12) + r ! 7 + ssig0 w1 + w0])"
| "schedule (Suc n) w = w"

fun sha_round :: "u32 list \<Rightarrow> u32 \<times> u32 \<Rightarrow> u32 list" where
  "sha_round [a, b, c, d, e, f, g, h] (k, w) =
     (let t1 = h + bsig1 e + Ch e f g + k + w;
          t2 = bsig0 a + Maj a b c
      in [t1 + t2, a, b, c, d + t1, e, f, g])"
| "sha_round s _ = s"

definition compress :: "u32 list \<Rightarrow> u8 list \<Rightarrow> u32 list" where
  "compress hs blk = map2 (+) hs (foldl sha_round hs (zip K256 (schedule 64 (be32 blk))))"

fun blocks :: "nat \<Rightarrow> u32 list \<Rightarrow> u8 list \<Rightarrow> u32 list" where
  "blocks 0 hs bs = hs"
| "blocks (Suc n) hs bs = blocks n (compress hs (take 64 bs)) (drop 64 bs)"

definition be64 :: "u64 \<Rightarrow> u8 list" where
  "be64 w = map (\<lambda>i. ucast (drop_bit (8 * i) w)) [7, 6, 5, 4, 3, 2, 1, 0]"

definition sha_pad :: "u8 list \<Rightarrow> u8 list" where
  "sha_pad m = m @ [0x80] @ replicate ((119 - length m mod 64) mod 64) 0
                 @ be64 (8 * of_nat (length m))"

definition unbe32 :: "u32 \<Rightarrow> u8 list" where
  "unbe32 w = [ucast (drop_bit 24 w), ucast (drop_bit 16 w), ucast (drop_bit 8 w), ucast w]"

definition sha256 :: "u8 list \<Rightarrow> u8 list" where
  "sha256 m = (let p = sha_pad m in concat (map unbe32 (blocks (length p div 64) H256 p)))"

subsection \<open>crypto/hmac over SHA-256 (RFC 2104)\<close>

definition hmac_key_block :: "u8 list \<Rightarrow> u8 list" where
  "hmac_key_block key =
     (let k0 = (if length key > 64 then sha256 key else key)
      in k0 @ replicate (64 - length k0) 0)"

definition hmac_sha256 :: "u8 list \<Rightarrow> u8 list \<Rightarrow> u8 list" where
  "hmac_sha256 key m =
     sha256 (map (\<lambda>b. b XOR 0x5c) (hmac_key_block key)
             @ sha256 (map (\<lambda>b. b XOR 0x36) (hmac_key_block key) @ m))"

section \<open>Package auth\<close>

record SignRequest =
  Method :: string
  Path :: string
  Body :: "string option"
  Timestamp :: string
  ReqHeaders :: "string \<rightharpoonup> string list"

record SignResult =
  Headers :: "string \<rightharpoonup> string"
  QueryParams :: "string \<rightharpoonup> string"

datatype auth_error =
    ErrAPIKeyRequired
  | ErrSecretRequired
  | ErrPassphraseRequired
  | ErrSecretNotBase64
  | ErrDecodeSecret
  | ErrSignerFuncRequired
  | ErrMPCSigningFailed string

subsection \<open>HMACSigner\<close>

record HMACConfig =
  APIKey :: string
  Secret :: string
  Passphrase :: string

record HMACSigner =
  config :: HMACConfig

definition NewHMACSigner :: "HMACConfig \<Rightarrow> auth_error + HMACSigner" where
  "NewHMACSigner cfg =
     (if APIKey cfg = [] then Inl ErrAPIKeyRequired
      else if Secret cfg = [] then Inl ErrSecretRequired
      else if Passphrase cfg = [] then Inl ErrPassphraseRequired
      else (case DecodeString (Secret cfg) of
              None \<Rightarrow> Inl ErrSecretNotBase64
            | Some _ \<Rightarrow> Inr \<lparr>config = cfg\<rparr>))"

text \<open>
  \<open>Sign\<close>; the argument \<open>now\<close> is the reading \<open>time.Now().Unix()\<close> of the clock
  at the call (consulted only when the request carries no timestamp).
\<close>

definition hmac_prehash :: "int \<Rightarrow> SignRequest \<Rightarrow> string" where
  "hmac_prehash now req =
     (let timestamp = (if Timestamp req = [] then FormatInt now else Timestamp req);
          body = string_of_bytes (Body req)
      in timestamp @ Method req @ Path req @ body)"

definition HMACSigner_Sign :: "HMACSigner \<Rightarrow> int \<Rightarrow> SignRequest \<Rightarrow> auth_error + SignResult" where
  "HMACSigner_Sign s now req =
     (let timestamp = (if Timestamp req = [] then FormatInt now else Timestamp req);
          prehash = hmac_prehash now req
      in case DecodeString (Secret (config s)) of
           None \<Rightarrow> Inl ErrDecodeSecret
         | Some decodedSecret \<Rightarrow>
             (let signature = hmac_sha256 decodedSecret (bytes_of_string prehash);
                  signatureB64 = EncodeToString signature
              in Inr \<lparr>Headers = [''CB-ACCESS-KEY'' \<mapsto> APIKey (config s),
                                  ''CB-ACCESS-SIGN'' \<mapsto> signatureB64,
                                  ''CB-ACCESS-TIMESTAMP'' \<mapsto> timestamp,
                                  ''CB-ACCESS-PASSPHRASE'' \<mapsto> Passphrase (config s)],
                      QueryParams = Map.empty\<rparr>))"

text \<open>The value of the \<open>CB-ACCESS-SIGN\<close> header of a signing result, if there is one.\<close>

definition signature_of :: "auth_error + SignResult \<Rightarrow> string option" where
  "signature_of res = (case res of Inl _ \<Rightarrow> None | Inr r \<Rightarrow> Headers r ''CB-ACCESS-SIGN'')"

subsection \<open>MPCSigner\<close>

text \<open>
  The external signing function takes the message and returns a signature (\<open>Inr\<close>) or
  the text of its error (\<open>Inl\<close>); a nil function value is \<open>None\<close>.
\<close>

record MPCConfig =
  MPC_APIKey :: string
  SignerFunc :: "(string \<Rightarrow> string + string) option"

record MPCSigner =
  mpc_config :: MPCConfig

definition NewMPCSigner :: "MPCConfig \<Rightarrow> auth_error + MPCSigner" where
  "NewMPCSigner cfg =
     (if MPC_APIKey cfg = [] then Inl ErrAPIKeyRequired
      else if SignerFunc cfg = None then Inl ErrSignerFuncRequired
      else Inr \<lparr>mpc_config = cfg\<rparr>)"

text \<open>
  \<open>Sign\<close>; \<open>now_ms\<close> is the reading \<open>time.Now().UnixMilli()\<close>. The first
  component of the result is the list of messages handed to \<open>SignerFunc\<close> during the
  call, the second is what \<open>Sign\<close> returns. Calling a nil \<open>SignerFunc\<close> panics.
\<close>

datatype 'a outcome = Returns 'a | Panics

definition MPCSigner_Sign ::
  "MPCSigner \<Rightarrow> int \<Rightarrow> SignRequest \<Rightarrow> string list \<times> (auth_error + SignResult) outcome" where
  "MPCSigner_Sign s now_ms req =
     (let timestamp = (if Timestamp req = [] then FormatInt now_ms else Timestamp req);
          body = string_of_bytes (Body req);
          message = timestamp @ Method req @ Path req @ body
      in case SignerFunc (mpc_config s) of
           None \<Rightarrow> ([], Panics)
         | Some f \<Rightarrow>
             (case f message of
                Inl err \<Rightarrow> ([message], Returns (Inl (ErrMPCSigningFailed err)))
              | Inr signature \<Rightarrow>
                  ([message],
                   Returns (Inr \<lparr>Headers = [''X-API-KEY'' \<mapsto> MPC_APIKey (mpc_config s),
                                            ''X-TIMESTAMP'' \<mapsto> timestamp,
                                            ''X-SIGNATURE'' \<mapsto> signature],
                                 QueryParams = Map.empty\<rparr>))))"

text \<open>\<open>DefaultMPCSignerFunc\<close>: the SHA-256 hash of the message in lower-case hexadecimal.\<close>

definition hex_digit :: "u8 \<Rightarrow> char" where
  "hex_digit v = ''0123456789abcdef'' ! unat (v AND 15)"

definition hex_EncodeToString :: "u8 list \<Rightarrow> string" where
  "hex_EncodeToString bs = concat (map (\<lambda>b. [hex_digit (drop_bit 4 b), hex_digit b]) bs)"

definition DefaultMPCSignerFunc :: "string \<Rightarrow> string + string" where
  "DefaultMPCSignerFunc message = Inr (hex_EncodeToString (sha256 (bytes_of_string message)))"

section \<open>Package normalizer: shared parsing utilities\<close>

subsection \<open>strings.TrimSpace\<close>

text \<open>
  \<open>TrimSpace\<close> removes leading and trailing Unicode white space. On the bytes of a
  string these are the UTF-8 encodings of the code points with the White_Space property:
  U+0009 to U+000D, U+0020, U+0085, U+00A0, U+1680, U+2000 to U+200A, U+2028, U+2029,
  U+202F, U+205F and U+3000.
\<close>

definition white_space_utf8 :: "string list" where
  "white_space_utf8 =
     [[CHR 0x09], [CHR 0x0A], [CHR 0x0B], [CHR 0x0C], [CHR 0x0D], [CHR 0x20],
      [CHR 0xC2, CHR 0x85], [CHR 0xC2, CHR 0xA0], [CHR 0xE1, CHR 0x9A, CHR 0x80],
      [CHR 0xE2, CHR 0x80, CHR 0x80], [CHR 0xE2, CHR 0x80, CHR 0x81],
      [CHR 0xE2, CHR 0x80, CHR 0x82], [CHR 0xE2, CHR 0x80, CHR 0x83],
      [CHR 0xE2, CHR 0x80, CHR 0x84], [CHR 0xE2, CHR 0x80, CHR 0x85],
      [CHR 0xE2, CHR 0x80, CHR 0x86], [CHR 0xE2, CHR 0x80, CHR 0x87],
      [CHR 0xE2, CHR 0x80, CHR 0x88], [CHR 0xE2, CHR 0x80, CHR 0x89],
      [CHR 0xE2, CHR 0x80, CHR 0x8A], [CHR 0xE2, CHR 0x80, CHR 0xA8],
      [CHR 0xE2, CHR 0x80, CHR 0xA9], [CHR 0xE2, CHR 0x80, CHR 0xAF],
      [CHR 0xE2, CHR 0x81, CHR 0x9F], [CHR 0xE3, CHR 0x80, CHR 0x80]]"

text \<open>The rest of \<open>s\<close> after the first of the encodings \<open>es\<close> that starts it.\<close>

fun strip_one :: "string list \<Rightarrow> string \<Rightarrow> string option" where
  "strip_one [] s = None"
| "strip_one (e # es) s =
     (if e \<noteq> [] \<and> take (length e) s = e then Some (drop (length e) s) else strip_one es s)"

text \<open>
  Stripping at most \<open>n\<close> encodings from the front; a string of \<open>n\<close> bytes holds at most
  \<open>n\<close> of them.
\<close>

fun trim_front :: "nat \<Rightarrow> string list \<Rightarrow> string \<Rightarrow> string" where
  "trim_front 0 es s = s"
| "trim_front (Suc n) es s =
     (case strip_one es s of None \<Rightarrow> s | Some s' \<Rightarrow> trim_front n es s')"

definition TrimSpace :: "string \<Rightarrow> string" where
  "TrimSpace s =
     (let l = trim_front (length s) white_space_utf8 s
      in rev (trim_front (length l) (map rev white_space_utf8) (rev l)))"

subsection \<open>strconv.ParseInt (base 10, 64 bits)\<close>

definition is_digit :: "char \<Rightarrow> bool" where
  "is_digit c \<longleftrightarrow> (48::nat) \<le> of_char c \<and> of_char c \<le> (57::nat)"

definition digits_val :: "string \<Rightarrow> int" where
  "digits_val ds = foldl (\<lambda>acc c. 10 * acc + (of_char c - 48)) 0 ds"

text \<open>
  \<open>None\<close> stands for a non-nil error: a syntax error for an empty string, a sign with no
  digits or a character that is no digit, and a range error for a value outside
  \<open>[-2\<^sup>6\<^sup>3, 2\<^sup>6\<^sup>3 - 1]\<close>.
\<close>

definition ParseInt :: "string \<Rightarrow> int option" where
  "ParseInt s =
     (case s of
        [] \<Rightarrow> None
      | c # cs \<Rightarrow>
          (let neg = (c = CHR ''-'');
               ds = (if c = CHR ''+'' \<or> c = CHR ''-'' then cs else s)
           in if ds = [] \<or> \<not> list_all is_digit ds then None
              else if neg then (if digits_val ds \<le> 2 ^ 63 then Some (- digits_val ds) else None)
              else (if digits_val ds < 2 ^ 63 then Some (digits_val ds) else None)))"

subsection \<open>Timestamps\<close>

text \<open>The protobuf timestamp: seconds and nanoseconds since the Unix epoch.\<close>

record Timestamp_pb =
  Seconds :: int
  Nanos :: int

text \<open>Go's integer division and remainder truncate towards zero.\<close>

definition go_div :: "int \<Rightarrow> int \<Rightarrow> int" where
  "go_div a b = sgn a * sgn b * (\<bar>a\<bar> div \<bar>b\<bar>)"

definition go_rem :: "int \<Rightarrow> int \<Rightarrow> int" where
  "go_rem a b = a - b * go_div a b"

text \<open>
  \<open>timestamppb.New(time.Unix(sec, nsec))\<close>: \<open>time.Unix\<close> brings the nanoseconds
  into \<open>[0, 10\<^sup>9)\<close>, carrying into the seconds.
\<close>

definition time_Unix :: "int \<Rightarrow> int \<Rightarrow> Timestamp_pb" where
  "time_Unix sec nsec =
     (if nsec < 0 \<or> nsec \<ge> 1000000000 then
        (let n = go_div nsec 1000000000;
             sec1 = sec + n;
             nsec1 = nsec - n * 1000000000
         in if nsec1 < 0 then \<lparr>Seconds = sec1 - 1, Nanos = nsec1 + 1000000000\<rparr>
            else \<lparr>Seconds = sec1, Nanos = nsec1\<rparr>)
      else \<lparr>Seconds = sec, Nanos = nsec\<rparr>)"

datatype parse_error =
    ErrInvalidUnixTimestamp
  | ErrUnixOutOfRange int
  | ErrUnableToParseTimestamp string
  | ErrInvalidDecimal
  | ErrDecimalNaNOrInf string

definition parseUnixTimestamp :: "string \<Rightarrow> parse_error + Timestamp_pb option" where
  "parseUnixTimestamp s =
     (case ParseInt s of
        None \<Rightarrow> Inl ErrInvalidUnixTimestamp
      | Some n \<Rightarrow>
          (if n < 100000000000 then Inr (Some (time_Unix n 0))
           else if n < 100000000000000 then
             Inr (Some (time_Unix (go_div n 1000) (go_rem n 1000 * 1000000)))
           else if n < 100000000000000000 then
             Inr (Some (time_Unix (go_div n 1000000) (go_rem n 1000000 * 1000)))
           else Inl (ErrUnixOutOfRange n)))"

fun isNumeric :: "string \<Rightarrow> bool" where
  "isNumeric [] = False"
| "isNumeric (c # cs) =
     (let s = (if c = CHR ''-'' then cs else c # cs)
      in list_all is_digit s \<and> length s > 0)"

text \<open>
  The layouts tried in order. \<open>time.Parse\<close> belongs to the Go standard library and is a
  parameter \<open>tp\<close> of the model: \<open>tp layout value\<close> is the parsed instant, already
  converted by \<open>timestamppb.New\<close>, or \<open>None\<close> when \<open>time.Parse\<close> returns an error.
\<close>

definition RFC3339 :: string where
  "RFC3339 = ''2006-01-02T15:04:05Z07:00''"

definition RFC3339Nano :: string where
  "RFC3339Nano = ''2006-01-02T15:04:05.999999999Z07:00''"

definition formats :: "string list" where
  "formats = [RFC3339, RFC3339Nano,
              ''2006-01-02T15:04:05.999Z'',
              ''2006-01-02T15:04:05.999999Z'',
              ''2006-01-02T15:04:05Z'',
              ''2006-01-02 15:04:05'',
              ''2006-01-02T15:04:05.999Z07:00'']"

type_synonym time_Parse = "string \<Rightarrow> string \<Rightarrow> Timestamp_pb option"

fun try_formats :: "time_Parse \<Rightarrow> string list \<Rightarrow> string \<Rightarrow> Timestamp_pb option" where
  "try_formats tp [] s = None"
| "try_formats tp (format # rest) s =
     (case tp format s of Some t \<Rightarrow> Some t | None \<Rightarrow> try_formats tp rest s)"

definition ParseTimestamp :: "time_Parse \<Rightarrow> string \<Rightarrow> parse_error + Timestamp_pb option" where
  "ParseTimestamp tp s0 =
     (let s = TrimSpace s0
      in if s = [] \<or> s = ''null'' then Inr None
         else if isNumeric s then parseUnixTimestamp s
         else (case try_formats tp formats s of
                 Some t \<Rightarrow> Inr (Some t)
               | None \<Rightarrow> Inl (ErrUnableToParseTimestamp s)))"

text \<open>
  The instant of a UTC calendar date and time of day, as
  \<open>time.Date(y, m, d, hh, mm, ss, 0, time.UTC).Unix()\<close> gives it (proleptic Gregorian
  calendar, days counted from 1970-01-01).
\<close>

definition days_from_civil :: "int \<Rightarrow> int \<Rightarrow> int \<Rightarrow> int" where
  "days_from_civil y m d =
     (let y1 = (if m \<le> 2 then y - 1 else y);
          era = y1 div 400;
          yoe = y1 - era * 400;
          doy = (153 * (if m > 2 then m - 3 else m + 9) + 2) div 5 + d - 1;
          doe = yoe * 365 + yoe div 4 - yoe div 100 + doy
      in era * 146097 + doe - 719468)"

definition unix_of_utc :: "int \<Rightarrow> int \<Rightarrow> int \<Rightarrow> int \<Rightarrow> int \<Rightarrow> int \<Rightarrow> int" where
  "unix_of_utc y m d hh mm ss = days_from_civil y m d * 86400 + hh * 3600 + mm * 60 + ss"

subsection \<open>Decimals\<close>

text \<open>
  The type \<open>float64\<close> and its operations belong to the language and its standard
  library (IEEE 754 arithmetic, \<open>strconv.ParseFloat\<close>, \<open>math.IsNaN\<close>,
  \<open>math.IsInf\<close>, the \<open>%f\<close> verb, numeric conversions). The model is parametric in
  them: \<open>'f\<close> is the type of floating-point values and the record below its operations.
  \<open>ParseFloat\<close> is \<open>None\<close> when \<open>strconv.ParseFloat\<close> returns an error.
\<close>

record 'f float64_ops =
  f_zero :: 'f
  f_add :: "'f \<Rightarrow> 'f \<Rightarrow> 'f"
  f_sub :: "'f \<Rightarrow> 'f \<Rightarrow> 'f"
  f_div :: "'f \<Rightarrow> 'f \<Rightarrow> 'f"
  f_eq :: "'f \<Rightarrow> 'f \<Rightarrow> bool"
  f_less :: "'f \<Rightarrow> 'f \<Rightarrow> bool"
  f_is_nan :: "'f \<Rightarrow> bool"
  f_is_inf :: "'f \<Rightarrow> bool"
  f_of_int :: "int \<Rightarrow> 'f"
  f_to_int32 :: "'f \<Rightarrow> 32 word"
  ParseFloat :: "string \<Rightarrow> 'f option"
  Sprintf_f :: "'f \<Rightarrow> string"

definition ParseDecimal :: "'f float64_ops \<Rightarrow> string \<Rightarrow> parse_error + 'f" where
  "ParseDecimal ops s0 =
     (let s = TrimSpace s0
      in if s = [] \<or> s = ''null'' then Inr (f_zero ops)
         else (case ParseFloat ops s of
                 None \<Rightarrow> Inl ErrInvalidDecimal
               | Some f \<Rightarrow>
                   (if f_is_nan ops f \<or> f_is_inf ops f then Inl (ErrDecimalNaNOrInf s)
                    else Inr f)))"

definition ParseDecimalOrZero :: "'f float64_ops \<Rightarrow> string \<Rightarrow> 'f" where
  "ParseDecimalOrZero ops s = (case ParseDecimal ops s of Inl _ \<Rightarrow> f_zero ops | Inr f \<Rightarrow> f)"

section \<open>Venue errors (packages coinbase and prime)\<close>

text \<open>
  The value returned by \<open>NormalizeError\<close>: an unclassified error made by
  \<open>fmt.Errorf\<close>, or one of the three classified error types, each carrying the text of
  the wrapped error and a code. Both packages declare the same three types.
\<close>

datatype venue_error =
    PlainError string
  | PermanentError string string
  | TemporaryError string string
  | RateLimitError string string

fun IsPermanent :: "venue_error \<Rightarrow> bool" where
  "IsPermanent (PermanentError _ _) = True"
| "IsPermanent _ = False"

fun IsRateLimit :: "venue_error \<Rightarrow> bool" where
  "IsRateLimit (RateLimitError _ _) = True"
| "IsRateLimit _ = False"

fun IsTemporaryError :: "venue_error \<Rightarrow> bool" where
  "IsTemporaryError (TemporaryError _ _) = True"
| "IsTemporaryError _ = False"

text \<open>\<open>IsTemporary\<close> of package prime: the error has a \<open>Temporary()\<close> method that holds.\<close>

fun IsTemporary :: "venue_error \<Rightarrow> bool" where
  "IsTemporary (TemporaryError _ _) = True"
| "IsTemporary (RateLimitError _ _) = True"
| "IsTemporary _ = False"

definition StatusBadRequest :: int where "StatusBadRequest = 400"
definition StatusUnauthorized :: int where "StatusUnauthorized = 401"
definition StatusForbidden :: int where "StatusForbidden = 403"
definition StatusNotFound :: int where "StatusNotFound = 404"
definition StatusTooManyRequests :: int where "StatusTooManyRequests = 429"
definition StatusInternalServerError :: int where "StatusInternalServerError = 500"
definition StatusBadGateway :: int where "StatusBadGateway = 502"
definition StatusServiceUnavailable :: int where "StatusServiceUnavailable = 503"
definition StatusGatewayTimeout :: int where "StatusGatewayTimeout = 504"

subsection \<open>coinbase\<close>

record CoinbaseError =
  Error :: string
  Message :: string
  ErrorDetails :: string
  PreviewFailure :: string
  NewOrderFailure :: string
  EditFailure :: string

definition toLower :: "string \<Rightarrow> string" where
  "toLower s = map (\<lambda>c. if (65::nat) \<le> of_char c \<and> of_char c \<le> (90::nat)
                          then char_of (of_char c + (32::nat)) else c) s"

text \<open>
  The loop of \<open>contains\<close> over the start index \<open>i\<close>, as a recursion over the suffix of
  \<open>s\<close> that starts at \<open>i\<close>: the loop runs while \<open>len(substr)\<close> bytes are left.
\<close>

fun contains_loop :: "string \<Rightarrow> string \<Rightarrow> bool" where
  "contains_loop [] substr = (substr = [])"
| "contains_loop (c # cs) substr =
     (if length substr \<le> length (c # cs)
      then (if take (length substr) (c # cs) = substr then True else contains_loop cs substr)
      else False)"

definition contains :: "string \<Rightarrow> string \<Rightarrow> bool" where
  "contains s substr = contains_loop (toLower s) (toLower substr)"

definition clientErrors :: "string list" where
  "clientErrors = [''invalid'', ''missing'', ''insufficient'', ''exceed'', ''too small'',
                   ''too large'', ''not allowed'', ''unsupported'', ''duplicate'', ''malformed'']"

definition client_error_text :: "CoinbaseError \<Rightarrow> string" where
  "client_error_text cbErr = Error cbErr @ '' '' @ Message cbErr @ '' '' @ ErrorDetails cbErr"

fun any_contains :: "string \<Rightarrow> string list \<Rightarrow> bool" where
  "any_contains msg [] = False"
| "any_contains msg (pattern # rest) = (if contains msg pattern then True else any_contains msg rest)"

definition isClientError_coinbase :: "CoinbaseError \<Rightarrow> bool" where
  "isClientError_coinbase cbErr = any_contains (client_error_text cbErr) clientErrors"

definition formatErrorMessage_coinbase :: "CoinbaseError \<Rightarrow> string" where
  "formatErrorMessage_coinbase cbErr =
     (let msg0 = ''coinbase api error'';
          msg1 = (if Error cbErr \<noteq> [] then msg0 @ '': '' @ Error cbErr else msg0);
          msg2 = (if Message cbErr \<noteq> [] then
                    (if Error cbErr = [] then msg1 @ '': '' @ Message cbErr
                     else msg1 @ '' ('' @ Message cbErr @ '')'')
                  else msg1);
          details =
            (if ErrorDetails cbErr \<noteq> [] then [ErrorDetails cbErr] else [])
            @ (if PreviewFailure cbErr \<noteq> [] then [''preview: '' @ PreviewFailure cbErr] else [])
            @ (if NewOrderFailure cbErr \<noteq> [] then [''order: '' @ NewOrderFailure cbErr] else [])
            @ (if EditFailure cbErr \<noteq> [] then [''edit: '' @ EditFailure cbErr] else [])
      in case details of
           [] \<Rightarrow> msg2
         | d # ds \<Rightarrow> msg2 @ '' ['' @ foldl (\<lambda>detailStr x. detailStr @ ''; '' @ x) d ds @ '']'')"

definition classifyError_coinbase :: "int \<Rightarrow> string \<Rightarrow> CoinbaseError \<Rightarrow> venue_error" where
  "classifyError_coinbase statusCode msg cbErr =
     (let baseErr = msg @ '' (status: '' @ FormatInt statusCode @ '')''
      in if statusCode = StatusUnauthorized \<or> statusCode = StatusForbidden
           then PermanentError baseErr ''AUTH_FAILURE''
         else if statusCode = StatusTooManyRequests
           then RateLimitError baseErr ''RATE_LIMIT''
         else if statusCode = StatusBadRequest
           then (if isClientError_coinbase cbErr then PermanentError baseErr ''INVALID_REQUEST''
                 else TemporaryError baseErr ''BAD_REQUEST'')
         else if statusCode = StatusNotFound
           then PermanentError baseErr ''NOT_FOUND''
         else if statusCode = StatusInternalServerError \<or> statusCode = StatusServiceUnavailable
                 \<or> statusCode = StatusBadGateway \<or> statusCode = StatusGatewayTimeout
           then TemporaryError baseErr ''SERVER_ERROR''
         else TemporaryError baseErr ''UNKNOWN'')"

text \<open>
  \<open>json.Unmarshal\<close> belongs to the standard library and is a parameter of the model:
  \<open>unmarshal body\<close> is the decoded struct, or \<open>None\<close> when decoding returns an error.
\<close>

definition NormalizeError_coinbase ::
  "(string \<Rightarrow> CoinbaseError option) \<Rightarrow> int \<Rightarrow> string \<Rightarrow> venue_error" where
  "NormalizeError_coinbase unmarshal statusCode body =
     (if length body = 0
      then PlainError (''coinbase api error: status '' @ FormatInt statusCode @ '' (no body)'')
      else (case unmarshal body of
              None \<Rightarrow>
                PlainError (''coinbase api error: status '' @ FormatInt statusCode @ '': '' @ body)
            | Some cbErr \<Rightarrow>
                classifyError_coinbase statusCode (formatErrorMessage_coinbase cbErr) cbErr))"

subsection \<open>prime\<close>

text \<open>
  The \<open>details\<close> object is kept as the list of its entries; \<open>'v\<close> is the type of the
  decoded JSON values in it.
\<close>

record 'v PrimeError =
  Prime_Message :: string
  Code :: string
  Details :: "(string \<times> 'v) list"
  StatusCode :: int

text \<open>\<open>marshal\<close> is \<open>json.Marshal\<close> on the details, \<open>None\<close> when it returns an error.\<close>

definition formatErrorMessage_prime ::
  "((string \<times> 'v) list \<Rightarrow> string option) \<Rightarrow> 'v PrimeError \<Rightarrow> string" where
  "formatErrorMessage_prime marshal primeErr =
     (let msg0 = ''prime api error'';
          msg1 = (if Code primeErr \<noteq> [] then msg0 @ '': '' @ Code primeErr else msg0);
          msg2 = (if Prime_Message primeErr \<noteq> [] then
                    (if Code primeErr = [] then msg1 @ '': '' @ Prime_Message primeErr
                     else msg1 @ '' ('' @ Prime_Message primeErr @ '')'')
                  else msg1)
      in if length (Details primeErr) > 0 then
           (case marshal (Details primeErr) of
              Some detailsJSON \<Rightarrow> msg2 @ '' [details: '' @ detailsJSON @ '']''
            | None \<Rightarrow> msg2)
         else msg2)"

definition clientErrorCodes :: "string \<rightharpoonup> bool" where
  "clientErrorCodes = map_of
     [(''INVALID_ARGUMENT'', True), (''INVALID_PRODUCT'', True), (''INVALID_ORDER'', True),
      (''INVALID_ORDER_ID'', True), (''INVALID_PORTFOLIO'', True),
      (''INVALID_PORTFOLIO_ID'', True), (''INSUFFICIENT_FUNDS'', True),
      (''ORDER_NOT_FOUND'', True), (''VALIDATION_ERROR'', True)]"

text \<open>Indexing a Go map with a missing key gives the zero value, here \<open>false\<close>.\<close>

definition isClientError_prime :: "'v PrimeError \<Rightarrow> bool" where
  "isClientError_prime primeErr =
     (case clientErrorCodes (Code primeErr) of Some b \<Rightarrow> b | None \<Rightarrow> False)"

definition classifyError_prime :: "int \<Rightarrow> string \<Rightarrow> 'v PrimeError \<Rightarrow> venue_error" where
  "classifyError_prime statusCode msg primeErr =
     (let baseErr = msg @ '' (status: '' @ FormatInt statusCode @ '')''
      in if statusCode = StatusUnauthorized \<or> statusCode = StatusForbidden
           then PermanentError baseErr (Code primeErr)
         else if statusCode = StatusTooManyRequests
           then RateLimitError baseErr (Code primeErr)
         else if statusCode = StatusBadRequest
           then (if isClientError_prime primeErr then PermanentError baseErr (Code primeErr)
                 else TemporaryError baseErr (Code primeErr))
         else if statusCode = StatusNotFound
           then PermanentError baseErr (Code primeErr)
         else if statusCode = StatusInternalServerError \<or> statusCode = StatusServiceUnavailable
                 \<or> statusCode = StatusBadGateway
           then TemporaryError baseErr (Code primeErr)
         else TemporaryError baseErr (Code primeErr))"

definition NormalizeError_prime ::
  "(string \<Rightarrow> 'v PrimeError option) \<Rightarrow> ((string \<times> 'v) list \<Rightarrow> string option)
   \<Rightarrow> int \<Rightarrow> string \<Rightarrow> venue_error" where
  "NormalizeError_prime unmarshal marshal statusCode body =
     (if length body = 0
      then PlainError (''prime api error: status '' @ FormatInt statusCode @ '' (no body)'')
      else (case unmarshal body of
              None \<Rightarrow>
                PlainError (''prime api error: status '' @ FormatInt statusCode @ '': '' @ body)
            | Some primeErr \<Rightarrow>
                classifyError_prime statusCode (formatErrorMessage_prime marshal primeErr) primeErr))"

section \<open>Order books (packages coinbase and prime)\<close>

text \<open>
  A value held in an \<open>interface{}\<close>, by its dynamic type: the cases that the type
  switches of the level parsers tell apart, and \<open>IOther\<close> for every other dynamic type
  (\<open>bool\<close>, \<open>nil\<close>, slices, maps, ...).
\<close>

datatype 'f iface = IString string | IFloat64 'f | IInt int | IInt64 int | IOther

record 'f OrderBookLevel =
  Price :: "'f option"
  Quantity :: "'f option"
  OrderCount :: "32 word option"

record 'f OrderBook =
  VenueId :: "string option"
  VenueSymbol :: "string option"
  BookTimestamp :: "Timestamp_pb option"
  Bids :: "'f OrderBookLevel list"
  Asks :: "'f OrderBookLevel list"
  BestBid :: "'f option"
  BestAsk :: "'f option"
  Spread :: "'f option"
  MidPrice :: "'f option"
  Sequence :: "int option"

datatype level_error = ErrLevelLength nat nat | ErrPriceType nat | ErrSizeType nat

datatype book_error =
    ErrEmptyOrderbookResponse
  | ErrParseOrderbook
  | ErrParseBids level_error
  | ErrParseAsks level_error

text \<open>
  Best bid, best ask, spread and mid price, computed the same way in both packages: the
  best price is the price of the first level when there is one; spread and mid price are
  set when both best prices are.
\<close>

definition best_price :: "'f OrderBookLevel list \<Rightarrow> 'f option" where
  "best_price levels = (case levels of [] \<Rightarrow> None | l # _ \<Rightarrow> Price l)"

definition spread_of :: "'f float64_ops \<Rightarrow> 'f option \<Rightarrow> 'f option \<Rightarrow> 'f option" where
  "spread_of ops bestBid bestAsk =
     (case bestBid of None \<Rightarrow> None
      | Some b \<Rightarrow> (case bestAsk of None \<Rightarrow> None | Some a \<Rightarrow> Some (f_sub ops a b)))"

definition midPrice_of :: "'f float64_ops \<Rightarrow> 'f option \<Rightarrow> 'f option \<Rightarrow> 'f option" where
  "midPrice_of ops bestBid bestAsk =
     (case bestBid of None \<Rightarrow> None
      | Some b \<Rightarrow>
          (case bestAsk of None \<Rightarrow> None
           | Some a \<Rightarrow> Some (f_div ops (f_add ops b a) (f_of_int ops 2))))"

text \<open>
  The timestamp of a book: the parsed time string when it is not empty and parses, else
  the reading \<open>now\<close> of \<open>timestamppb.Now()\<close>.
\<close>

definition book_timestamp :: "time_Parse \<Rightarrow> Timestamp_pb \<Rightarrow> string \<Rightarrow> Timestamp_pb option" where
  "book_timestamp tp now timeStr =
     (if timeStr \<noteq> [] then
        (case ParseTimestamp tp timeStr of Inr ts \<Rightarrow> ts | Inl _ \<Rightarrow> Some now)
      else Some now)"

subsection \<open>coinbase\<close>

record 'f PriceBook =
  pb_ProductID :: string
  pb_Bids :: "'f iface list list option"
  pb_Asks :: "'f iface list list option"
  pb_Time :: string

record 'f CoinbaseOrderBook =
  cb_PriceBook :: "'f PriceBook"
  cb_Time :: string

text \<open>A price or quantity as a string: a string as it is, a \<open>float64\<close> through \<open>%f\<close>.\<close>

definition level_string :: "'f float64_ops \<Rightarrow> 'f iface \<Rightarrow> string option" where
  "level_string ops v =
     (case v of IString s \<Rightarrow> Some s | IFloat64 f \<Rightarrow> Some (Sprintf_f ops f) | _ \<Rightarrow> None)"

definition level_count :: "'f float64_ops \<Rightarrow> 'f iface \<Rightarrow> 32 word option" where
  "level_count ops v =
     (case v of
        IFloat64 countFloat \<Rightarrow> Some (f_to_int32 ops countFloat)
      | IString countStr \<Rightarrow>
          (let countFloat = ParseDecimalOrZero ops countStr
           in if f_less ops (f_zero ops) countFloat then Some (f_to_int32 ops countFloat)
              else None)
      | _ \<Rightarrow> None)"

text \<open>The loop over the levels: \<open>i\<close> is the index, \<open>result\<close> the slice built so far.\<close>

fun levels_loop_coinbase ::
  "'f float64_ops \<Rightarrow> nat \<Rightarrow> 'f iface list list \<Rightarrow> 'f OrderBookLevel list
   \<Rightarrow> level_error + 'f OrderBookLevel list" where
  "levels_loop_coinbase ops i [] result = Inr result"
| "levels_loop_coinbase ops i (level # rest) result =
     (if length level < 2 then Inl (ErrLevelLength i (length level))
      else (case level_string ops (level ! 0) of
              None \<Rightarrow> Inl (ErrPriceType i)
            | Some priceStr \<Rightarrow>
                (case level_string ops (level ! 1) of
                   None \<Rightarrow> Inl (ErrSizeType i)
                 | Some quantityStr \<Rightarrow>
                     levels_loop_coinbase ops (Suc i) rest
                       (result @
                        [\<lparr>Price = Some (ParseDecimalOrZero ops priceStr),
                          Quantity = Some (ParseDecimalOrZero ops quantityStr),
                          OrderCount = (if length level > 2 then level_count ops (level ! 2)
                                        else None)\<rparr>]))))"

definition parseOrderBookLevels_coinbase ::
  "'f float64_ops \<Rightarrow> 'f iface list list option \<Rightarrow> level_error + 'f OrderBookLevel list" where
  "parseOrderBookLevels_coinbase ops levels =
     (case levels of None \<Rightarrow> Inr [] | Some ls \<Rightarrow> levels_loop_coinbase ops 0 ls [])"

definition NormalizeOrderBook_coinbase ::
  "'f float64_ops \<Rightarrow> time_Parse \<Rightarrow> (string \<Rightarrow> 'f CoinbaseOrderBook option) \<Rightarrow> Timestamp_pb
   \<Rightarrow> string \<Rightarrow> book_error + 'f OrderBook" where
  "NormalizeOrderBook_coinbase ops tp unmarshal now raw =
     (if length raw = 0 then Inl ErrEmptyOrderbookResponse
      else (case unmarshal raw of
              None \<Rightarrow> Inl ErrParseOrderbook
            | Some cbBook \<Rightarrow>
                (let timeStr = (if cb_Time cbBook = [] then pb_Time (cb_PriceBook cbBook)
                                else cb_Time cbBook);
                     timestamp = book_timestamp tp now timeStr
                 in case parseOrderBookLevels_coinbase ops (pb_Bids (cb_PriceBook cbBook)) of
                      Inl err \<Rightarrow> Inl (ErrParseBids err)
                    | Inr bids \<Rightarrow>
                        (case parseOrderBookLevels_coinbase ops (pb_Asks (cb_PriceBook cbBook)) of
                           Inl err \<Rightarrow> Inl (ErrParseAsks err)
                         | Inr asks \<Rightarrow>
                             (let bestBid = best_price bids;
                                  bestAsk = best_price asks
                              in Inr \<lparr>VenueId = Some ''coinbase'',
                                      VenueSymbol = Some (pb_ProductID (cb_PriceBook cbBook)),
                                      BookTimestamp = timestamp,
                                      Bids = bids,
                                      Asks = asks,
                                      BestBid = bestBid,
                                      BestAsk = bestAsk,
                                      Spread = spread_of ops bestBid bestAsk,
                                      MidPrice = midPrice_of ops bestBid bestAsk,
                                      Sequence = None\<rparr>)))))"

subsection \<open>prime\<close>

record 'f PrimeOrderBook =
  pr_ProductID :: string
  pr_Bids :: "'f iface list list option"
  pr_Asks :: "'f iface list list option"
  pr_Time :: string
  pr_Sequence :: int

text \<open>A price or size as a number: a string through \<open>ParseDecimalOrZero\<close>, numbers converted.\<close>

definition level_number :: "'f float64_ops \<Rightarrow> 'f iface \<Rightarrow> 'f option" where
  "level_number ops v =
     (case v of
        IString s \<Rightarrow> Some (ParseDecimalOrZero ops s)
      | IFloat64 f \<Rightarrow> Some f
      | IInt n \<Rightarrow> Some (f_of_int ops n)
      | IInt64 n \<Rightarrow> Some (f_of_int ops n)
      | IOther \<Rightarrow> None)"

fun levels_loop_prime ::
  "'f float64_ops \<Rightarrow> nat \<Rightarrow> 'f iface list list \<Rightarrow> 'f OrderBookLevel list
   \<Rightarrow> level_error + 'f OrderBookLevel list" where
  "levels_loop_prime ops i [] result = Inr result"
| "levels_loop_prime ops i (level # rest) result =
     (if length level < 2 then Inl (ErrLevelLength i (length level))
      else (case level_number ops (level ! 0) of
              None \<Rightarrow> Inl (ErrPriceType i)
            | Some price \<Rightarrow>
                (case level_number ops (level ! 1) of
                   None \<Rightarrow> Inl (ErrSizeType i)
                 | Some sz \<Rightarrow>
                     (if f_eq ops price (f_zero ops) \<and> f_eq ops sz (f_zero ops)
                      then levels_loop_prime ops (Suc i) rest result
                      else levels_loop_prime ops (Suc i) rest
                             (result @ [\<lparr>Price = Some price, Quantity = Some sz,
                                         OrderCount = None\<rparr>])))))"

text \<open>Ranging over a nil slice runs the loop body no time.\<close>

definition parseOrderBookLevels_prime ::
  "'f float64_ops \<Rightarrow> 'f iface list list option \<Rightarrow> level_error + 'f OrderBookLevel list" where
  "parseOrderBookLevels_prime ops levels =
     levels_loop_prime ops 0 (case levels of None \<Rightarrow> [] | Some ls \<Rightarrow> ls) []"

definition NormalizeOrderBook_prime ::
  "'f float64_ops \<Rightarrow> time_Parse \<Rightarrow> (string \<Rightarrow> 'f PrimeOrderBook option) \<Rightarrow> Timestamp_pb
   \<Rightarrow> string \<Rightarrow> book_error + 'f OrderBook" where
  "NormalizeOrderBook_prime ops tp unmarshal now raw =
     (if length raw = 0 then Inl ErrEmptyOrderbookResponse
      else (case unmarshal raw of
              None \<Rightarrow> Inl ErrParseOrderbook
            | Some primeBook \<Rightarrow>
                (let timestamp = book_timestamp tp now (pr_Time primeBook)
                 in case parseOrderBookLevels_prime ops (pr_Bids primeBook) of
                      Inl err \<Rightarrow> Inl (ErrParseBids err)
                    | Inr bids \<Rightarrow>
                        (case parseOrderBookLevels_prime ops (pr_Asks primeBook) of
                           Inl err \<Rightarrow> Inl (ErrParseAsks err)
                         | Inr asks \<Rightarrow>
                             (let bestBid = best_price bids;
                                  bestAsk = best_price asks
                              in Inr \<lparr>VenueId = Some ''prime'',
                                      VenueSymbol = Some (pr_ProductID primeBook),
                                      BookTimestamp = timestamp,
                                      Bids = bids,
                                      Asks = asks,
                                      BestBid = bestBid,
                                      BestAsk = bestAsk,
                                      Spread = spread_of ops bestBid bestAsk,
                                      MidPrice = midPrice_of ops bestBid bestAsk,
                                      Sequence = (if pr_Sequence primeBook > 0
                                                  then Some (pr_Sequence primeBook)
                                                  else None)\<rparr>)))))"

text \<open>
  What one level contributes, for stating properties of the loop: the parsed price and
  size of a level that the loop accepts, and the entries it appends for it.
\<close>

definition level_pair_prime :: "'f float64_ops \<Rightarrow> 'f iface list \<Rightarrow> ('f \<times> 'f) option" where
  "level_pair_prime ops level =
     (if length level < 2 then None
      else (case level_number ops (level ! 0) of
              None \<Rightarrow> None
            | Some price \<Rightarrow>
                (case level_number ops (level ! 1) of
                   None \<Rightarrow> None
                 | Some sz \<Rightarrow> Some (price, sz))))"

definition kept_prime :: "'f float64_ops \<Rightarrow> 'f iface list \<Rightarrow> 'f OrderBookLevel list" where
  "kept_prime ops level =
     (case level_pair_prime ops level of
        None \<Rightarrow> []
      | Some (price, sz) \<Rightarrow>
          (if f_eq ops price (f_zero ops) \<and> f_eq ops sz (f_zero ops) then []
           else [\<lparr>Price = Some price, Quantity = Some sz, OrderCount = None\<rparr>]))"

section \<open>Instances of the library parameters for closed examples\<close>

text \<open>
  The closed examples below need concrete values for the parameters that stand for the
  standard library. Each instance agrees with the library on the inputs it is used with.
\<close>

subsection \<open>time.Parse\<close>

definition days_in_month :: "int \<Rightarrow> int \<Rightarrow> int" where
  "days_in_month y m =
     (if m = 2 then (if y mod 4 = 0 \<and> (y mod 100 \<noteq> 0 \<or> y mod 400 = 0) then 29 else 28)
      else if m = 4 \<or> m = 6 \<or> m = 9 \<or> m = 11 then 30 else 31)"

text \<open>
  Under the layout \<open>RFC3339\<close> this instance accepts exactly the values of the form
  \<open>YYYY-MM-DDThh:mm:ssZ\<close> that denote a valid date and time, and gives their instant;
  it rejects every other layout and value (\<open>time.Parse\<close> accepts more).
\<close>

definition utc_seconds_Parse :: time_Parse where
  "utc_seconds_Parse layout v =
     (if layout = RFC3339 \<and> length v = 20
         \<and> list_all is_digit (take 4 v) \<and> v ! 4 = CHR ''-''
         \<and> list_all is_digit (take 2 (drop 5 v)) \<and> v ! 7 = CHR ''-''
         \<and> list_all is_digit (take 2 (drop 8 v)) \<and> v ! 10 = CHR ''T''
         \<and> list_all is_digit (take 2 (drop 11 v)) \<and> v ! 13 = CHR '':''
         \<and> list_all is_digit (take 2 (drop 14 v)) \<and> v ! 16 = CHR '':''
         \<and> list_all is_digit (take 2 (drop 17 v)) \<and> v ! 19 = CHR ''Z''
      then (let y = digits_val (take 4 v);
                m = digits_val (take 2 (drop 5 v));
                d = digits_val (take 2 (drop 8 v));
                hh = digits_val (take 2 (drop 11 v));
                mm = digits_val (take 2 (drop 14 v));
                ss = digits_val (take 2 (drop 17 v))
            in if 1 \<le> m \<and> m \<le> 12 \<and> 1 \<le> d \<and> d \<le> days_in_month y m
                  \<and> hh < 24 \<and> mm < 60 \<and> ss < 60
               then Some \<lparr>Seconds = unix_of_utc y m d hh mm ss, Nanos = 0\<rparr>
               else None)
      else None)"

text \<open>A reading of the clock.\<close>

definition sample_now :: Timestamp_pb where
  "sample_now = \<lparr>Seconds = 1700000000, Nanos = 0\<rparr>"

subsection \<open>float64\<close>

text \<open>
  Exact arithmetic on the rationals. It agrees with \<open>float64\<close> wherever the arguments
  and the result are values that \<open>float64\<close> represents exactly, such as the integers
  and halves of the examples. \<open>ParseFloat\<close> reads plain decimals (an optional sign,
  digits, an optional fraction); \<open>%f\<close> prints six decimals.
\<close>

definition rat_ParseFloat :: "string \<Rightarrow> rat option" where
  "rat_ParseFloat s =
     (let neg = (take 1 s = ''-'');
          u = (if take 1 s = ''-'' \<or> take 1 s = ''+'' then drop 1 s else s);
          ip = takeWhile is_digit u;
          r = dropWhile is_digit u;
          fp = (if r = [] then Some [] else if take 1 r = ''.'' then Some (drop 1 r) else None)
      in case fp of
           None \<Rightarrow> None
         | Some fd \<Rightarrow>
             (if \<not> list_all is_digit fd \<or> (ip = [] \<and> fd = []) then None
              else Some ((if neg then - 1 else 1)
                         * (of_int (digits_val ip) + of_int (digits_val fd) / 10 ^ length fd))))"

definition rat_Sprintf_f :: "rat \<Rightarrow> string" where
  "rat_Sprintf_f r =
     (let q = \<lfloor>\<bar>r\<bar> * 1000000 + 1 / 2\<rfloor>;
          fd = nat_digits (q mod 1000000)
      in (if r < 0 then ''-'' else []) @ nat_digits (q div 1000000) @ ''.''
         @ replicate (6 - length fd) (CHR ''0'') @ fd)"

definition rat_ops :: "rat float64_ops" where
  "rat_ops =
     \<lparr>f_zero = 0, f_add = (+), f_sub = (-), f_div = (/), f_eq = (=), f_less = (<),
      f_is_nan = (\<lambda>_. False), f_is_inf = (\<lambda>_. False), f_of_int = of_int,
      f_to_int32 = (\<lambda>r. of_int (if r < 0 then - \<lfloor>- r\<rfloor> else \<lfloor>r\<rfloor>)),
      ParseFloat = rat_ParseFloat, Sprintf_f = rat_Sprintf_f\<rparr>"

subsection \<open>encoding/json\<close>

text \<open>
  \<open>json.Unmarshal\<close> on sample bodies, those of the packages' tests among them; these
  instances treat every other body as one that does not decode.
\<close>

definition rate_limit_body :: string where
  \<open>rate_limit_body = ''{"error": "rate_limit", "message": "Too many requests"}''\<close>

definition insufficient_funds_body :: string where
  \<open>insufficient_funds_body = ''{"error": "insufficient_funds", "message": "Not enough balance"}''\<close>

definition processing_error_body :: string where
  \<open>processing_error_body = ''{"error": "processing_error", "message": "Request failed"}''\<close>

definition sample_CoinbaseError :: "string \<Rightarrow> string \<Rightarrow> CoinbaseError" where
  "sample_CoinbaseError e m =
     \<lparr>Error = e, Message = m, ErrorDetails = [], PreviewFailure = [], NewOrderFailure = [],
      EditFailure = []\<rparr>"

definition unmarshal_CoinbaseError :: "string \<Rightarrow> CoinbaseError option" where
  "unmarshal_CoinbaseError body =
     (if body = rate_limit_body
        then Some (sample_CoinbaseError ''rate_limit'' ''Too many requests'')
      else if body = insufficient_funds_body
        then Some (sample_CoinbaseError ''insufficient_funds'' ''Not enough balance'')
      else if body = processing_error_body
        then Some (sample_CoinbaseError ''processing_error'' ''Request failed'')
      else None)"

definition prime_rate_limit_body :: string where
  \<open>prime_rate_limit_body = ''{"message": "Too many requests", "code": "RATE_LIMIT_EXCEEDED"}''\<close>

definition prime_invalid_order_body :: string where
  \<open>prime_invalid_order_body = ''{"message": "Invalid order", "code": "INVALID_ORDER"}''\<close>

definition prime_lowercase_body :: string where
  \<open>prime_lowercase_body = ''{"message": "Insufficient funds", "code": "insufficient_funds"}''\<close>

definition sample_PrimeError :: "string \<Rightarrow> string \<Rightarrow> string PrimeError" where
  "sample_PrimeError m c = \<lparr>Prime_Message = m, Code = c, Details = [], StatusCode = 0\<rparr>"

definition unmarshal_PrimeError :: "string \<Rightarrow> string PrimeError option" where
  "unmarshal_PrimeError body =
     (if body = prime_rate_limit_body
        then Some (sample_PrimeError ''Too many requests'' ''RATE_LIMIT_EXCEEDED'')
      else if body = prime_invalid_order_body
        then Some (sample_PrimeError ''Invalid order'' ''INVALID_ORDER'')
      else if body = prime_lowercase_body
        then Some (sample_PrimeError ''Insufficient funds'' ''insufficient_funds'')
      else None)"

text \<open>\<open>json.Marshal\<close> on details whose values are strings that need no escaping.\<close>

fun marshal_entries :: "(string \<times> string) list \<Rightarrow> string" where
  "marshal_entries [] = []"
| "marshal_entries [(k, v)] = [CHR 0x22] @ k @ [CHR 0x22] @ '':'' @ [CHR 0x22] @ v @ [CHR 0x22]"
| "marshal_entries ((k, v) # kv # rest) =
     [CHR 0x22] @ k @ [CHR 0x22] @ '':'' @ [CHR 0x22] @ v @ [CHR 0x22] @ '','' @ marshal_entries (kv # rest)"

definition marshal_details :: "(string \<times> string) list \<Rightarrow> string option" where
  "marshal_details kvs = Some (''{'' @ marshal_entries kvs @ ''}'')"

definition coinbase_book_body :: string where
  \<open>coinbase_book_body =
     ''{"pricebook":{"product_id":"BTC-USD","bids":[[50000,1.5]],"asks":[[50010,1.2]]}}''\<close>

definition coinbase_no_bids_body :: string where
  \<open>coinbase_no_bids_body =
     ''{"pricebook":{"product_id":"BTC-USD","bids":[],"asks":[[50010,1.2]]}}''\<close>

definition unmarshal_CoinbaseOrderBook :: "string \<Rightarrow> rat CoinbaseOrderBook option" where
  "unmarshal_CoinbaseOrderBook raw =
     (if raw = coinbase_book_body
        then Some \<lparr>cb_PriceBook =
                     \<lparr>pb_ProductID = ''BTC-USD'',
                      pb_Bids = Some [[IFloat64 50000, IFloat64 (3 / 2)]],
                      pb_Asks = Some [[IFloat64 50010, IFloat64 (6 / 5)]],
                      pb_Time = []\<rparr>,
                   cb_Time = []\<rparr>
      else if raw = coinbase_no_bids_body
        then Some \<lparr>cb_PriceBook =
                     \<lparr>pb_ProductID = ''BTC-USD'',
                      pb_Bids = Some [],
                      pb_Asks = Some [[IFloat64 50010, IFloat64 (6 / 5)]],
                      pb_Time = []\<rparr>,
                   cb_Time = []\<rparr>
      else None)"

definition prime_book_body :: string where
  \<open>prime_book_body =
     ''{"product_id":"BTC-USD","bids":[[50000,1.5]],"asks":[[50010,1.2]],"sequence":12345}''\<close>

definition prime_zero_bid_body :: string where
  \<open>prime_zero_bid_body =
     ''{"product_id":"BTC-USD","bids":[[0,0]],"asks":[[50010,1.2]],"sequence":12345}''\<close>

definition unmarshal_PrimeOrderBook :: "string \<Rightarrow> rat PrimeOrderBook option" where
  "unmarshal_PrimeOrderBook raw =
     (if raw = prime_book_body
        then Some \<lparr>pr_ProductID = ''BTC-USD'',
                   pr_Bids = Some [[IFloat64 50000, IFloat64 (3 / 2)]],
                   pr_Asks = Some [[IFloat64 50010, IFloat64 (6 / 5)]],
                   pr_Time = [], pr_Sequence = 12345\<rparr>
      else if raw = prime_zero_bid_body
        then Some \<lparr>pr_ProductID = ''BTC-USD'',
                   pr_Bids = Some [[IFloat64 0, IFloat64 0]],
                   pr_Asks = Some [[IFloat64 50010, IFloat64 (6 / 5)]],
                   pr_Time = [], pr_Sequence = 12345\<rparr>
      else None)"

section \<open>Properties of the HMAC signer\<close>

subsection \<open>The reference signature\<close>

lemma decode_secret: "DecodeString ''c2VjcmV0'' = Some [115, 101, 99, 114, 101, 116]"
  by code_simp

lemma encode_secret: "EncodeToString (bytes_of_string ''secret'') = ''c2VjcmV0''"
  by code_simp

lemma hmac_inner_digest:
  "sha256 (map (\<lambda>b. b XOR 0x36) (hmac_key_block [115, 101, 99, 114, 101, 116])
           @ bytes_of_string ''1234567890GET/orders'')
   = [235, 254, 121, 202, 63, 122, 16, 181, 90, 235, 18, 165, 103, 116, 190, 210,
     174, 133, 110, 94, 142, 38, 31, 98, 25, 148, 181, 21, 47, 52, 249, 90]"
  by code_simp

lemma hmac_outer_digest:
  "sha256 (map (\<lambda>b. b XOR 0x5c) (hmac_key_block [115, 101, 99, 114, 101, 116])
           @ [235, 254, 121, 202, 63, 122, 16, 181, 90, 235, 18, 165, 103, 116, 190, 210,
     174, 133, 110, 94, 142, 38, 31, 98, 25, 148, 181, 21, 47, 52, 249, 90])
   = [115, 70, 243, 246, 183, 88, 10, 33, 159, 2, 194, 179, 35, 39, 239, 154,
     220, 122, 121, 77, 95, 109, 105, 247, 73, 87, 48, 40, 133, 106, 100, 206]"
  by code_simp

lemma hmac_example:
  "hmac_sha256 [115, 101, 99, 114, 101, 116] (bytes_of_string ''1234567890GET/orders'')
   = [115, 70, 243, 246, 183, 88, 10, 33, 159, 2, 194, 179, 35, 39, 239, 154,
     220, 122, 121, 77, 95, 109, 105, 247, 73, 87, 48, 40, 133, 106, 100, 206]"
  unfolding hmac_sha256_def by (simp only: hmac_inner_digest hmac_outer_digest)

lemma encode_example:
  "EncodeToString [115, 70, 243, 246, 183, 88, 10, 33, 159, 2, 194, 179, 35, 39, 239, 154,
     220, 122, 121, 77, 95, 109, 105, 247, 73, 87, 48, 40, 133, 106, 100, 206]
   = ''c0bz9rdYCiGfAsKzIyfvmtx6eU1fbWn3SVcwKIVqZM4=''"
  by code_simp

lemma NewHMACSigner_InrD:
  assumes "NewHMACSigner cfg = Inr s"
  shows "s = \<lparr>config = cfg\<rparr>" and "APIKey cfg \<noteq> []" and "Secret cfg \<noteq> []"
    and "Passphrase cfg \<noteq> []" and "\<exists>k. DecodeString (Secret cfg) = Some k"
  using assms by (auto simp: NewHMACSigner_def split: if_splits option.splits)

lemma prehash_example:
  assumes "Method req = ''GET''" and "Path req = ''/orders''"
    and "Body req = None \<or> Body req = Some []" and "Timestamp req = ''1234567890''"
  shows "hmac_prehash now req = ''1234567890GET/orders''"
  using assms by (auto simp: hmac_prehash_def)

text \<open>
  Claim C1. A signer constructed with the secret that is the base64 encoding of
  \<open>secret\<close> signs the request GET \<open>/orders\<close> with an empty (or absent) body and the
  timestamp \<open>1234567890\<close> with the \<open>CB-ACCESS-SIGN\<close> value
  \<open>c0bz9rdYCiGfAsKzIyfvmtx6eU1fbWn3SVcwKIVqZM4=\<close>, whatever the API key, the
  passphrase and the clock.
\<close>

theorem hmac_known_signature:
  assumes "NewHMACSigner \<lparr>APIKey = k, Secret = EncodeToString (bytes_of_string ''secret''),
                          Passphrase = p\<rparr> = Inr s"
    and "Method req = ''GET''" and "Path req = ''/orders''"
    and "Body req = None \<or> Body req = Some []"
    and "Timestamp req = ''1234567890''"
  shows "signature_of (HMACSigner_Sign s now req)
         = Some ''c0bz9rdYCiGfAsKzIyfvmtx6eU1fbWn3SVcwKIVqZM4=''"
proof -
  have s: "Secret (config s) = ''c2VjcmV0''"
    using NewHMACSigner_InrD(1) [OF assms(1)] by (simp add: encode_secret)
  have p: "hmac_prehash now req = ''1234567890GET/orders''"
    using assms(2-5) by (rule prehash_example)
  show ?thesis
    by (simp add: HMACSigner_Sign_def signature_of_def s p decode_secret hmac_example
        encode_example del: EncodeToString.simps)
qed

theorem hmac_known_signature_witness:
  "NewHMACSigner \<lparr>APIKey = ''key'', Secret = EncodeToString (bytes_of_string ''secret''),
                  Passphrase = ''pass''\<rparr>
     = Inr \<lparr>config = \<lparr>APIKey = ''key'', Secret = ''c2VjcmV0'', Passphrase = ''pass''\<rparr>\<rparr>
   \<and> signature_of
        (HMACSigner_Sign \<lparr>config = \<lparr>APIKey = ''key'', Secret = ''c2VjcmV0'', Passphrase = ''pass''\<rparr>\<rparr> 0
           \<lparr>Method = ''GET'', Path = ''/orders'', Body = Some [], Timestamp = ''1234567890'',
            ReqHeaders = Map.empty\<rparr>)
     = Some ''c0bz9rdYCiGfAsKzIyfvmtx6eU1fbWn3SVcwKIVqZM4=''"
proof -
  have c: "NewHMACSigner \<lparr>APIKey = ''key'', Secret = EncodeToString (bytes_of_string ''secret''),
                          Passphrase = ''pass''\<rparr>
     = Inr \<lparr>config = \<lparr>APIKey = ''key'', Secret = ''c2VjcmV0'', Passphrase = ''pass''\<rparr>\<rparr>"
    by (simp add: NewHMACSigner_def encode_secret decode_secret del: EncodeToString.simps)
  show ?thesis
    using c hmac_known_signature [OF c,
        of "\<lparr>Method = ''GET'', Path = ''/orders'', Body = Some [], Timestamp = ''1234567890'',
             ReqHeaders = Map.empty\<rparr>" 0]
    by simp
qed

subsection \<open>Absent and empty bodies\<close>

lemma signature_of_Sign:
  assumes "DecodeString (Secret (config s)) = Some key"
  shows "signature_of (HMACSigner_Sign s now req)
         = Some (EncodeToString (hmac_sha256 key (bytes_of_string (hmac_prehash now req))))"
  using assms by (simp add: HMACSigner_Sign_def signature_of_def Let_def)

text \<open>
  Claim C2. Take a constructed signer and two requests with the same method, path and
  timestamp, one with a nil body and one with an empty body. Both calls of \<open>Sign\<close>
  succeed; the pre-hash string of each is timestamp + method + path followed by nothing,
  the body adding the empty string; and both \<open>CB-ACCESS-SIGN\<close> values are the base64
  encoding of the HMAC-SHA256 of that one string under the decoded secret, so they are
  identical. The timestamp is the one of the requests or, when they carry none, the
  reading of the clock, taken to be the same for the two calls.
\<close>

theorem hmac_nil_body_same_signature:
  assumes "NewHMACSigner cfg = Inr s"
    and "Method req1 = Method req2" and "Path req1 = Path req2"
    and "Timestamp req1 = Timestamp req2"
    and "Body req1 = None" and "Body req2 = Some []"
    and "Timestamp req1 \<noteq> [] \<or> now1 = now2"
  shows "\<exists>key r1 r2.
           DecodeString (Secret cfg) = Some key
         \<and> hmac_prehash now1 req1
             = (if Timestamp req1 = [] then FormatInt now1 else Timestamp req1)
               @ Method req1 @ Path req1
         \<and> hmac_prehash now2 req2
             = (if Timestamp req1 = [] then FormatInt now1 else Timestamp req1)
               @ Method req1 @ Path req1
         \<and> HMACSigner_Sign s now1 req1 = Inr r1 \<and> HMACSigner_Sign s now2 req2 = Inr r2
         \<and> Headers r1 ''CB-ACCESS-SIGN''
             = Some (EncodeToString (hmac_sha256 key (bytes_of_string
                 ((if Timestamp req1 = [] then FormatInt now1 else Timestamp req1)
                  @ Method req1 @ Path req1))))
         \<and> Headers r2 ''CB-ACCESS-SIGN'' = Headers r1 ''CB-ACCESS-SIGN''
         \<and> signature_of (HMACSigner_Sign s now1 req1) = signature_of (HMACSigner_Sign s now2 req2)"
proof -
  from NewHMACSigner_InrD(1,5) [OF assms(1)]
  obtain key where key: "DecodeString (Secret cfg) = Some key" and s: "config s = cfg"
    by auto
  let ?ts = "if Timestamp req1 = [] then FormatInt now1 else Timestamp req1"
  have p1: "hmac_prehash now1 req1 = ?ts @ Method req1 @ Path req1"
    using assms(5) by (simp add: hmac_prehash_def)
  have p2: "hmac_prehash now2 req2 = ?ts @ Method req1 @ Path req1"
    using assms(2-4,6,7) by (auto simp: hmac_prehash_def)
  obtain r1 where r1: "HMACSigner_Sign s now1 req1 = Inr r1"
    using key s by (simp add: HMACSigner_Sign_def Let_def)
  obtain r2 where r2: "HMACSigner_Sign s now2 req2 = Inr r2"
    using key s by (simp add: HMACSigner_Sign_def Let_def)
  have k: "DecodeString (Secret (config s)) = Some key"
    using key s by simp
  have h1: "Headers r1 ''CB-ACCESS-SIGN''
      = Some (EncodeToString (hmac_sha256 key (bytes_of_string (?ts @ Method req1 @ Path req1))))"
    using signature_of_Sign [OF k, of now1 req1] r1 p1 by (simp add: signature_of_def)
  have h2: "Headers r2 ''CB-ACCESS-SIGN''
      = Some (EncodeToString (hmac_sha256 key (bytes_of_string (?ts @ Method req1 @ Path req1))))"
    using signature_of_Sign [OF k, of now2 req2] r2 p2 by (simp add: signature_of_def)
  have e: "signature_of (HMACSigner_Sign s now1 req1) = signature_of (HMACSigner_Sign s now2 req2)"
    using r1 r2 h1 h2 by (simp add: signature_of_def)
  show ?thesis
    using key p1 p2 r1 r2 h1 h2 e by (intro exI [of _ key] exI [of _ r1] exI [of _ r2]) simp
qed

theorem hmac_nil_body_same_signature_witness:
  "signature_of (HMACSigner_Sign \<lparr>config = \<lparr>APIKey = ''key'', Secret = ''c2VjcmV0'', Passphrase = ''pass''\<rparr>\<rparr> 1
        \<lparr>Method = ''GET'', Path = ''/api/v3/brokerage/accounts'', Body = None,
         Timestamp = ''1234567890'', ReqHeaders = Map.empty\<rparr>)
     = signature_of (HMACSigner_Sign \<lparr>config = \<lparr>APIKey = ''key'', Secret = ''c2VjcmV0'', Passphrase = ''pass''\<rparr>\<rparr> 2
        \<lparr>Method = ''GET'', Path = ''/api/v3/brokerage/accounts'', Body = Some [],
         Timestamp = ''1234567890'', ReqHeaders = Map.empty\<rparr>)
   \<and> hmac_prehash 2 \<lparr>Method = ''GET'', Path = ''/api/v3/brokerage/accounts'', Body = Some [],
                     Timestamp = ''1234567890'', ReqHeaders = Map.empty\<rparr>
     = ''1234567890GET/api/v3/brokerage/accounts''
   \<and> signature_of (HMACSigner_Sign \<lparr>config = \<lparr>APIKey = ''key'', Secret = ''c2VjcmV0'', Passphrase = ''pass''\<rparr>\<rparr> 1
        \<lparr>Method = ''GET'', Path = ''/api/v3/brokerage/accounts'', Body = None,
         Timestamp = ''1234567890'', ReqHeaders = Map.empty\<rparr>) \<noteq> None
   \<and> signature_of (HMACSigner_Sign \<lparr>config = \<lparr>APIKey = ''key'', Secret = ''c2VjcmV0'', Passphrase = ''pass''\<rparr>\<rparr> 7
        \<lparr>Method = ''GET'', Path = ''/orders'', Body = None, Timestamp = [], ReqHeaders = Map.empty\<rparr>)
     = signature_of (HMACSigner_Sign \<lparr>config = \<lparr>APIKey = ''key'', Secret = ''c2VjcmV0'', Passphrase = ''pass''\<rparr>\<rparr> 7
        \<lparr>Method = ''GET'', Path = ''/orders'', Body = Some [], Timestamp = [], ReqHeaders = Map.empty\<rparr>)
   \<and> hmac_prehash 7 \<lparr>Method = ''GET'', Path = ''/orders'', Body = Some [], Timestamp = [],
                     ReqHeaders = Map.empty\<rparr>
     = FormatInt 7 @ ''GET/orders''"
proof -
  let ?cfg = "\<lparr>APIKey = ''key'', Secret = ''c2VjcmV0'', Passphrase = ''pass''\<rparr>"
  have c: "NewHMACSigner ?cfg = Inr \<lparr>config = ?cfg\<rparr>"
    by (simp add: NewHMACSigner_def decode_secret)
  have a: "\<exists>key r1 r2.
           DecodeString (Secret ?cfg) = Some key
         \<and> hmac_prehash 1 \<lparr>Method = ''GET'', Path = ''/api/v3/brokerage/accounts'', Body = None,
              Timestamp = ''1234567890'', ReqHeaders = Map.empty\<rparr> = ''1234567890GET/api/v3/brokerage/accounts''
         \<and> hmac_prehash 2 \<lparr>Method = ''GET'', Path = ''/api/v3/brokerage/accounts'', Body = Some [],
              Timestamp = ''1234567890'', ReqHeaders = Map.empty\<rparr> = ''1234567890GET/api/v3/brokerage/accounts''
         \<and> HMACSigner_Sign \<lparr>config = ?cfg\<rparr> 1 \<lparr>Method = ''GET'', Path = ''/api/v3/brokerage/accounts'',
              Body = None, Timestamp = ''1234567890'', ReqHeaders = Map.empty\<rparr> = Inr r1
         \<and> HMACSigner_Sign \<lparr>config = ?cfg\<rparr> 2 \<lparr>Method = ''GET'', Path = ''/api/v3/brokerage/accounts'',
              Body = Some [], Timestamp = ''1234567890'', ReqHeaders = Map.empty\<rparr> = Inr r2
         \<and> Headers r1 ''CB-ACCESS-SIGN''
             = Some (EncodeToString (hmac_sha256 key (bytes_of_string ''1234567890GET/api/v3/brokerage/accounts'')))
         \<and> Headers r2 ''CB-ACCESS-SIGN'' = Headers r1 ''CB-ACCESS-SIGN''
         \<and> signature_of (HMACSigner_Sign \<lparr>config = ?cfg\<rparr> 1 \<lparr>Method = ''GET'',
              Path = ''/api/v3/brokerage/accounts'', Body = None, Timestamp = ''1234567890'',
              ReqHeaders = Map.empty\<rparr>)
           = signature_of (HMACSigner_Sign \<lparr>config = ?cfg\<rparr> 2 \<lparr>Method = ''GET'',
              Path = ''/api/v3/brokerage/accounts'', Body = Some [], Timestamp = ''1234567890'',
              ReqHeaders = Map.empty\<rparr>)"
    using hmac_nil_body_same_signature [OF c,
        of "\<lparr>Method = ''GET'', Path = ''/api/v3/brokerage/accounts'', Body = None,
             Timestamp = ''1234567890'', ReqHeaders = Map.empty\<rparr>"
           "\<lparr>Method = ''GET'', Path = ''/api/v3/brokerage/accounts'', Body = Some [],
             Timestamp = ''1234567890'', ReqHeaders = Map.empty\<rparr>" 1 2]
    by simp
  have b: "\<exists>key r1 r2.
           DecodeString (Secret ?cfg) = Some key
         \<and> hmac_prehash 7 \<lparr>Method = ''GET'', Path = ''/orders'', Body = None, Timestamp = [],
              ReqHeaders = Map.empty\<rparr> = FormatInt 7 @ ''GET/orders''
         \<and> hmac_prehash 7 \<lparr>Method = ''GET'', Path = ''/orders'', Body = Some [], Timestamp = [],
              ReqHeaders = Map.empty\<rparr> = FormatInt 7 @ ''GET/orders''
         \<and> HMACSigner_Sign \<lparr>config = ?cfg\<rparr> 7 \<lparr>Method = ''GET'', Path = ''/orders'',
              Body = None, Timestamp = [], ReqHeaders = Map.empty\<rparr> = Inr r1
         \<and> HMACSigner_Sign \<lparr>config = ?cfg\<rparr> 7 \<lparr>Method = ''GET'', Path = ''/orders'',
              Body = Some [], Timestamp = [], ReqHeaders = Map.empty\<rparr> = Inr r2
         \<and> Headers r1 ''CB-ACCESS-SIGN''
             = Some (EncodeToString (hmac_sha256 key (bytes_of_string (FormatInt 7 @ ''GET/orders''))))
         \<and> Headers r2 ''CB-ACCESS-SIGN'' = Headers r1 ''CB-ACCESS-SIGN''
         \<and> signature_of (HMACSigner_Sign \<lparr>config = ?cfg\<rparr> 7 \<lparr>Method = ''GET'',
              Path = ''/orders'', Body = None, Timestamp = [], ReqHeaders = Map.empty\<rparr>)
           = signature_of (HMACSigner_Sign \<lparr>config = ?cfg\<rparr> 7 \<lparr>Method = ''GET'',
              Path = ''/orders'', Body = Some [], Timestamp = [], ReqHeaders = Map.empty\<rparr>)"
    using hmac_nil_body_same_signature [OF c,
        of "\<lparr>Method = ''GET'', Path = ''/orders'', Body = None, Timestamp = [],
             ReqHeaders = Map.empty\<rparr>"
           "\<lparr>Method = ''GET'', Path = ''/orders'', Body = Some [], Timestamp = [],
             ReqHeaders = Map.empty\<rparr>" 7 7]
    by simp
  from a b show ?thesis
    by (auto simp: signature_of_def)
qed

subsection \<open>No failure at sign time\<close>

text \<open>
  Claim C8. Once \<open>NewHMACSigner\<close> has returned a signer, every \<open>Sign\<close> call on it
  returns a result and no error: the secret that \<open>Sign\<close> decodes is the one that the
  constructor decoded.
\<close>

theorem hmac_sign_cannot_fail:
  assumes "NewHMACSigner cfg = Inr s"
  shows "\<exists>r. HMACSigner_Sign s now req = Inr r"
proof -
  from NewHMACSigner_InrD(1,5) [OF assms]
  obtain k where "DecodeString (Secret (config s)) = Some k"
    by auto
  then show ?thesis by (simp add: HMACSigner_Sign_def Let_def)
qed

theorem hmac_sign_cannot_fail_witness:
  "NewHMACSigner \<lparr>APIKey = ''key'', Secret = ''c2VjcmV0'', Passphrase = ''pass''\<rparr>
     = Inr \<lparr>config = \<lparr>APIKey = ''key'', Secret = ''c2VjcmV0'', Passphrase = ''pass''\<rparr>\<rparr>
   \<and> (\<exists>r. HMACSigner_Sign \<lparr>config = \<lparr>APIKey = ''key'', Secret = ''c2VjcmV0'', Passphrase = ''pass''\<rparr>\<rparr> 1700000000
          \<lparr>Method = ''POST'', Path = ''/orders'', Body = Some ''{}'', Timestamp = [],
           ReqHeaders = Map.empty\<rparr> = Inr r)"
proof -
  have c: "NewHMACSigner \<lparr>APIKey = ''key'', Secret = ''c2VjcmV0'', Passphrase = ''pass''\<rparr>
     = Inr \<lparr>config = \<lparr>APIKey = ''key'', Secret = ''c2VjcmV0'', Passphrase = ''pass''\<rparr>\<rparr>"
    by (simp add: NewHMACSigner_def decode_secret)
  show ?thesis
    using c hmac_sign_cannot_fail [OF c] by simp
qed

section \<open>Properties of the MPC signer\<close>

lemma NewMPCSigner_InrD:
  assumes "NewMPCSigner cfg = Inr s"
  shows "s = \<lparr>mpc_config = cfg\<rparr>" and "MPC_APIKey cfg \<noteq> []" and "\<exists>f. SignerFunc cfg = Some f"
  using assms by (auto simp: NewMPCSigner_def split: if_splits)

text \<open>
  Claim C3. A constructed MPC signer with the external signing function \<open>f\<close>, given a
  request with a timestamp, applies \<open>f\<close> exactly once, to the message
  timestamp + method + path + body with nothing in between, and returns what \<open>f\<close>
  gives on that message: its signature in the \<open>X-SIGNATURE\<close> header, or its error
  wrapped as a signing failure. For POST \<open>/api/v1/orders\<close> with the body
  \<open>{"symbol":"BTC-USD"}\<close> and the timestamp \<open>1234567890\<close> the message is
  \<open>1234567890POST/api/v1/orders{"symbol":"BTC-USD"}\<close>.
\<close>

theorem mpc_message_is_concatenation:
  assumes "NewMPCSigner cfg = Inr s" and "SignerFunc cfg = Some f" and "Timestamp req \<noteq> []"
  shows \<open>MPCSigner_Sign s now_ms req
           = ([Timestamp req @ Method req @ Path req @ string_of_bytes (Body req)],
              Returns
                (case f (Timestamp req @ Method req @ Path req @ string_of_bytes (Body req)) of
                   Inl err \<Rightarrow> Inl (ErrMPCSigningFailed err)
                 | Inr signature \<Rightarrow>
                     Inr \<lparr>Headers = [''X-API-KEY'' \<mapsto> MPC_APIKey cfg,
                                     ''X-TIMESTAMP'' \<mapsto> Timestamp req,
                                     ''X-SIGNATURE'' \<mapsto> signature],
                          QueryParams = Map.empty\<rparr>))
         \<and> (Method req = ''POST'' \<and> Path req = ''/api/v1/orders''
              \<and> Body req = Some ''{"symbol":"BTC-USD"}'' \<and> Timestamp req = ''1234567890''
            \<longrightarrow> MPCSigner_Sign s now_ms req
                  = ([''1234567890POST/api/v1/orders{"symbol":"BTC-USD"}''],
                     Returns
                       (case f ''1234567890POST/api/v1/orders{"symbol":"BTC-USD"}'' of
                          Inl err \<Rightarrow> Inl (ErrMPCSigningFailed err)
                        | Inr signature \<Rightarrow>
                            Inr \<lparr>Headers = [''X-API-KEY'' \<mapsto> MPC_APIKey cfg,
                                            ''X-TIMESTAMP'' \<mapsto> ''1234567890'',
                                            ''X-SIGNATURE'' \<mapsto> signature],
                                 QueryParams = Map.empty\<rparr>)))\<close>
proof -
  have s: "mpc_config s = cfg"
    using NewMPCSigner_InrD(1) [OF assms(1)] by simp
  have g: "MPCSigner_Sign s now_ms req
           = ([Timestamp req @ Method req @ Path req @ string_of_bytes (Body req)],
              Returns
                (case f (Timestamp req @ Method req @ Path req @ string_of_bytes (Body req)) of
                   Inl err \<Rightarrow> Inl (ErrMPCSigningFailed err)
                 | Inr signature \<Rightarrow>
                     Inr \<lparr>Headers = [''X-API-KEY'' \<mapsto> MPC_APIKey cfg,
                                     ''X-TIMESTAMP'' \<mapsto> Timestamp req,
                                     ''X-SIGNATURE'' \<mapsto> signature],
                          QueryParams = Map.empty\<rparr>))"
    using assms(2,3) by (simp add: MPCSigner_Sign_def Let_def s split: sum.splits)
  show ?thesis
  proof (intro conjI impI)
    show "MPCSigner_Sign s now_ms req
           = ([Timestamp req @ Method req @ Path req @ string_of_bytes (Body req)],
              Returns
                (case f (Timestamp req @ Method req @ Path req @ string_of_bytes (Body req)) of
                   Inl err \<Rightarrow> Inl (ErrMPCSigningFailed err)
                 | Inr signature \<Rightarrow>
                     Inr \<lparr>Headers = [''X-API-KEY'' \<mapsto> MPC_APIKey cfg,
                                     ''X-TIMESTAMP'' \<mapsto> Timestamp req,
                                     ''X-SIGNATURE'' \<mapsto> signature],
                          QueryParams = Map.empty\<rparr>))"
      by (rule g)
  next
    assume \<open>Method req = ''POST'' \<and> Path req = ''/api/v1/orders''
              \<and> Body req = Some ''{"symbol":"BTC-USD"}'' \<and> Timestamp req = ''1234567890''\<close>
    then show \<open>MPCSigner_Sign s now_ms req
                  = ([''1234567890POST/api/v1/orders{"symbol":"BTC-USD"}''],
                     Returns
                       (case f ''1234567890POST/api/v1/orders{"symbol":"BTC-USD"}'' of
                          Inl err \<Rightarrow> Inl (ErrMPCSigningFailed err)
                        | Inr signature \<Rightarrow>
                            Inr \<lparr>Headers = [''X-API-KEY'' \<mapsto> MPC_APIKey cfg,
                                            ''X-TIMESTAMP'' \<mapsto> ''1234567890'',
                                            ''X-SIGNATURE'' \<mapsto> signature],
                                 QueryParams = Map.empty\<rparr>))\<close>
      using g by (simp split: sum.splits)
  qed
qed

text \<open>
  The witness signs with a function that returns its argument as the signature, so the
  \<open>X-SIGNATURE\<close> header shows the message that the function received, and with
  \<open>DefaultMPCSignerFunc\<close>.
\<close>

theorem mpc_message_is_concatenation_witness:
  \<open>NewMPCSigner \<lparr>MPC_APIKey = ''key'', SignerFunc = Some Inr\<rparr>
     = Inr \<lparr>mpc_config = \<lparr>MPC_APIKey = ''key'', SignerFunc = Some Inr\<rparr>\<rparr>
   \<and> MPCSigner_Sign \<lparr>mpc_config = \<lparr>MPC_APIKey = ''key'', SignerFunc = Some Inr\<rparr>\<rparr> 0
        \<lparr>Method = ''POST'', Path = ''/api/v1/orders'', Body = Some ''{"symbol":"BTC-USD"}'',
         Timestamp = ''1234567890'', ReqHeaders = Map.empty\<rparr>
     = ([''1234567890POST/api/v1/orders{"symbol":"BTC-USD"}''],
        Returns (Inr \<lparr>Headers = [''X-API-KEY'' \<mapsto> ''key'',
                                 ''X-TIMESTAMP'' \<mapsto> ''1234567890'',
                                 ''X-SIGNATURE'' \<mapsto> ''1234567890POST/api/v1/orders{"symbol":"BTC-USD"}''],
                      QueryParams = Map.empty\<rparr>))
   \<and> fst (MPCSigner_Sign \<lparr>mpc_config = \<lparr>MPC_APIKey = ''key'', SignerFunc = Some DefaultMPCSignerFunc\<rparr>\<rparr> 0
        \<lparr>Method = ''POST'', Path = ''/api/v1/orders'', Body = Some ''{"symbol":"BTC-USD"}'',
         Timestamp = ''1234567890'', ReqHeaders = Map.empty\<rparr>)
     = [''1234567890POST/api/v1/orders{"symbol":"BTC-USD"}'']\<close>
proof -
  let ?req = \<open>\<lparr>Method = ''POST'', Path = ''/api/v1/orders'', Body = Some ''{"symbol":"BTC-USD"}'',
                Timestamp = ''1234567890'', ReqHeaders = Map.empty\<rparr>\<close>
  have c: "NewMPCSigner \<lparr>MPC_APIKey = ''key'', SignerFunc = Some Inr\<rparr>
     = Inr \<lparr>mpc_config = \<lparr>MPC_APIKey = ''key'', SignerFunc = Some Inr\<rparr>\<rparr>"
    by (simp add: NewMPCSigner_def)
  have d: "NewMPCSigner \<lparr>MPC_APIKey = ''key'', SignerFunc = Some DefaultMPCSignerFunc\<rparr>
     = Inr \<lparr>mpc_config = \<lparr>MPC_APIKey = ''key'', SignerFunc = Some DefaultMPCSignerFunc\<rparr>\<rparr>"
    by (simp add: NewMPCSigner_def)
  show ?thesis
    using c mpc_message_is_concatenation [OF c, of Inr ?req 0]
      mpc_message_is_concatenation [OF d, of DefaultMPCSignerFunc ?req 0]
    by (simp split: sum.splits)
qed

section \<open>Properties of the error normalizers\<close>

subsection \<open>Rate limits\<close>

lemma coinbase_status_429:
  assumes "body \<noteq> []" and "unmarshal body = Some cbErr"
  shows "NormalizeError_coinbase unmarshal 429 body
         = RateLimitError (formatErrorMessage_coinbase cbErr @ '' (status: '' @ FormatInt 429 @ '')'')
             ''RATE_LIMIT''"
  using assms
  by (simp add: NormalizeError_coinbase_def classifyError_coinbase_def Let_def
      StatusUnauthorized_def StatusForbidden_def StatusTooManyRequests_def)

lemma prime_status_429:
  assumes "body \<noteq> []" and "unmarshal body = Some primeErr"
  shows "NormalizeError_prime unmarshal marshal 429 body
         = RateLimitError (formatErrorMessage_prime marshal primeErr @ '' (status: '' @ FormatInt 429 @ '')'')
             (Code primeErr)"
  using assms
  by (simp add: NormalizeError_prime_def classifyError_prime_def Let_def
      StatusUnauthorized_def StatusForbidden_def StatusTooManyRequests_def)

text \<open>
  Claim C4 does not hold for every body: with the status 429, an empty body and a body
  that does not decode give an unclassified error in both packages.
\<close>

theorem rate_limit_any_body_counterexample:
  "\<not> IsRateLimit (NormalizeError_coinbase unmarshal_CoinbaseError 429 [])
   \<and> \<not> IsRateLimit (NormalizeError_coinbase unmarshal_CoinbaseError 429 ''{invalid json'')
   \<and> \<not> IsRateLimit (NormalizeError_prime unmarshal_PrimeError marshal_details 429 [])
   \<and> \<not> IsRateLimit (NormalizeError_prime unmarshal_PrimeError marshal_details 429 ''{invalid json'')"
proof -
  have u: "unmarshal_CoinbaseError ''{invalid json'' = None"
    by code_simp
  have v: "unmarshal_PrimeError ''{invalid json'' = None"
    by code_simp
  show ?thesis
    by (simp add: NormalizeError_coinbase_def NormalizeError_prime_def u v)
qed

text \<open>
  Claim C4, amended. With the status 429, every body that is not empty and decodes is
  classified as a rate-limit error, in both packages: the error wraps the formatted
  message followed by \<open>(status: 429)\<close>, with the code \<open>RATE_LIMIT\<close> (Coinbase) or
  the body's \<open>code\<close> field (Prime). Whatever the status, an empty body gives the
  unclassified error \<open>coinbase api error: status N (no body)\<close>, and a body that is
  not empty and does not decode gives the unclassified error
  \<open>coinbase api error: status N: \<close> followed by the raw body (\<open>prime api error\<close>
  in package prime), \<open>N\<close> being the status code in decimal.
\<close>

theorem rate_limit_for_decoded_body:
  "(body \<noteq> [] \<and> unmarshal_c body = Some cbErr
      \<longrightarrow> IsRateLimit (NormalizeError_coinbase unmarshal_c 429 body)
          \<and> NormalizeError_coinbase unmarshal_c 429 body
              = RateLimitError (formatErrorMessage_coinbase cbErr @ '' (status: 429)'')
                  ''RATE_LIMIT'')
   \<and> (body \<noteq> [] \<and> unmarshal_p body = Some primeErr
      \<longrightarrow> IsRateLimit (NormalizeError_prime unmarshal_p marshal 429 body)
          \<and> NormalizeError_prime unmarshal_p marshal 429 body
              = RateLimitError (formatErrorMessage_prime marshal primeErr @ '' (status: 429)'')
                  (Code primeErr))
   \<and> (body = []
      \<longrightarrow> NormalizeError_coinbase unmarshal_c statusCode body
            = PlainError (''coinbase api error: status '' @ FormatInt statusCode @ '' (no body)'')
          \<and> NormalizeError_prime unmarshal_p marshal statusCode body
            = PlainError (''prime api error: status '' @ FormatInt statusCode @ '' (no body)''))
   \<and> (body \<noteq> [] \<and> unmarshal_c body = None
      \<longrightarrow> NormalizeError_coinbase unmarshal_c statusCode body
            = PlainError (''coinbase api error: status '' @ FormatInt statusCode @ '': '' @ body))
   \<and> (body \<noteq> [] \<and> unmarshal_p body = None
      \<longrightarrow> NormalizeError_prime unmarshal_p marshal statusCode body
            = PlainError (''prime api error: status '' @ FormatInt statusCode @ '': '' @ body))"
proof -
  have f: "FormatInt 429 = ''429''"
    by code_simp
  show ?thesis
  proof (intro conjI impI)
    assume a: "body \<noteq> [] \<and> unmarshal_c body = Some cbErr"
    then show "NormalizeError_coinbase unmarshal_c 429 body
              = RateLimitError (formatErrorMessage_coinbase cbErr @ '' (status: 429)'')
                  ''RATE_LIMIT''"
      using coinbase_status_429 [of body unmarshal_c cbErr] by (simp add: f)
    then show "IsRateLimit (NormalizeError_coinbase unmarshal_c 429 body)"
      by simp
  next
    assume a: "body \<noteq> [] \<and> unmarshal_p body = Some primeErr"
    then show "NormalizeError_prime unmarshal_p marshal 429 body
              = RateLimitError (formatErrorMessage_prime marshal primeErr @ '' (status: 429)'')
                  (Code primeErr)"
      using prime_status_429 [of body unmarshal_p primeErr marshal] by (simp add: f)
    then show "IsRateLimit (NormalizeError_prime unmarshal_p marshal 429 body)"
      by simp
  next
    assume "body = []"
    then show "NormalizeError_coinbase unmarshal_c statusCode body
            = PlainError (''coinbase api error: status '' @ FormatInt statusCode @ '' (no body)'')"
      and "NormalizeError_prime unmarshal_p marshal statusCode body
            = PlainError (''prime api error: status '' @ FormatInt statusCode @ '' (no body)'')"
      by (simp_all add: NormalizeError_coinbase_def NormalizeError_prime_def)
  next
    assume "body \<noteq> [] \<and> unmarshal_c body = None"
    then show "NormalizeError_coinbase unmarshal_c statusCode body
            = PlainError (''coinbase api error: status '' @ FormatInt statusCode @ '': '' @ body)"
      by (simp add: NormalizeError_coinbase_def)
  next
    assume "body \<noteq> [] \<and> unmarshal_p body = None"
    then show "NormalizeError_prime unmarshal_p marshal statusCode body
            = PlainError (''prime api error: status '' @ FormatInt statusCode @ '': '' @ body)"
      by (simp add: NormalizeError_prime_def)
  qed
qed

theorem rate_limit_for_decoded_body_witness:
  "NormalizeError_coinbase unmarshal_CoinbaseError 429 rate_limit_body
     = RateLimitError ''coinbase api error: rate_limit (Too many requests) (status: 429)''
         ''RATE_LIMIT''
   \<and> NormalizeError_prime unmarshal_PrimeError marshal_details 429 prime_rate_limit_body
     = RateLimitError ''prime api error: RATE_LIMIT_EXCEEDED (Too many requests) (status: 429)''
         ''RATE_LIMIT_EXCEEDED''
   \<and> NormalizeError_coinbase unmarshal_CoinbaseError 429 []
     = PlainError ''coinbase api error: status 429 (no body)''
   \<and> NormalizeError_prime unmarshal_PrimeError marshal_details 429 []
     = PlainError ''prime api error: status 429 (no body)''
   \<and> NormalizeError_coinbase unmarshal_CoinbaseError 429 ''{invalid json''
     = PlainError ''coinbase api error: status 429: {invalid json''
   \<and> NormalizeError_prime unmarshal_PrimeError marshal_details 429 ''{invalid json''
     = PlainError ''prime api error: status 429: {invalid json''"
proof -
  let ?c = "sample_CoinbaseError ''rate_limit'' ''Too many requests''"
  let ?p = "sample_PrimeError ''Too many requests'' ''RATE_LIMIT_EXCEEDED''"
  have b1: "rate_limit_body \<noteq> [] \<and> unmarshal_CoinbaseError rate_limit_body = Some ?c"
    by code_simp
  have b2: "prime_rate_limit_body \<noteq> [] \<and> unmarshal_PrimeError prime_rate_limit_body = Some ?p"
    by code_simp
  have b3: "unmarshal_CoinbaseError ''{invalid json'' = None"
    "unmarshal_PrimeError ''{invalid json'' = None"
    by code_simp+
  have m: "formatErrorMessage_coinbase ?c = ''coinbase api error: rate_limit (Too many requests)''"
    "formatErrorMessage_prime marshal_details ?p
       = ''prime api error: RATE_LIMIT_EXCEEDED (Too many requests)''"
    "Code ?p = ''RATE_LIMIT_EXCEEDED''"
    by code_simp+
  have f: "FormatInt 429 = ''429''"
    by code_simp
  have "NormalizeError_coinbase unmarshal_CoinbaseError 429 rate_limit_body
     = RateLimitError ''coinbase api error: rate_limit (Too many requests) (status: 429)''
         ''RATE_LIMIT''"
    using rate_limit_for_decoded_body [of rate_limit_body unmarshal_CoinbaseError ?c
        unmarshal_PrimeError ?p marshal_details 429] b1 m
    by simp
  moreover
  have "NormalizeError_prime unmarshal_PrimeError marshal_details 429 prime_rate_limit_body
     = RateLimitError ''prime api error: RATE_LIMIT_EXCEEDED (Too many requests) (status: 429)''
         ''RATE_LIMIT_EXCEEDED''"
    using rate_limit_for_decoded_body [of prime_rate_limit_body unmarshal_CoinbaseError ?c
        unmarshal_PrimeError ?p marshal_details 429] b2 m
    by simp
  moreover
  have "NormalizeError_coinbase unmarshal_CoinbaseError 429 []
       = PlainError ''coinbase api error: status 429 (no body)''
     \<and> NormalizeError_prime unmarshal_PrimeError marshal_details 429 []
       = PlainError ''prime api error: status 429 (no body)''"
    using rate_limit_for_decoded_body [of "[]" unmarshal_CoinbaseError ?c
        unmarshal_PrimeError ?p marshal_details 429] f
    by simp
  moreover
  have "NormalizeError_coinbase unmarshal_CoinbaseError 429 ''{invalid json''
       = PlainError ''coinbase api error: status 429: {invalid json''
     \<and> NormalizeError_prime unmarshal_PrimeError marshal_details 429 ''{invalid json''
       = PlainError ''prime api error: status 429: {invalid json''"
    using rate_limit_for_decoded_body [of "''{invalid json''" unmarshal_CoinbaseError ?c
        unmarshal_PrimeError ?p marshal_details 429] b3 f
    by simp
  ultimately show ?thesis by simp
qed

subsection \<open>Bad requests\<close>

lemma contains_loop_iff: "contains_loop s sub \<longleftrightarrow> (\<exists>u v. s = u @ sub @ v)"
proof (induction s)
  case Nil
  show ?case by simp
next
  case (Cons c cs)
  show ?case
  proof (cases "length sub \<le> length (c # cs)")
    case False
    then have "\<not> (\<exists>u v. c # cs = u @ sub @ v)"
      by (metis length_append le_add1 le_add2 le_trans)
    with False show ?thesis by simp
  next
    case True
    show ?thesis
    proof (cases "take (length sub) (c # cs) = sub")
      case t: True
      have "c # cs = [] @ sub @ drop (length sub) (c # cs)"
        using t by (metis append_Nil append_take_drop_id)
      then have "\<exists>u v. c # cs = u @ sub @ v" by blast
      with True t show ?thesis by simp
    next
      case f: False
      have "(\<exists>u v. c # cs = u @ sub @ v) \<longleftrightarrow> (\<exists>u v. cs = u @ sub @ v)"
      proof
        assume "\<exists>u v. c # cs = u @ sub @ v"
        then obtain u v where uv: "c # cs = u @ sub @ v" by blast
        have "u \<noteq> []"
        proof
          assume "u = []"
          with uv have "take (length sub) (c # cs) = sub" by simp
          with f show False by contradiction
        qed
        then obtain u' where "u = c # u'" using uv by (cases u) auto
        with uv have "cs = u' @ sub @ v" by simp
        then show "\<exists>u v. cs = u @ sub @ v" by blast
      next
        assume "\<exists>u v. cs = u @ sub @ v"
        then obtain u v where "cs = u @ sub @ v" by blast
        then have "c # cs = (c # u) @ sub @ v" by simp
        then show "\<exists>u v. c # cs = u @ sub @ v" by blast
      qed
      with True f Cons.IH show ?thesis by simp
    qed
  qed
qed

lemma any_contains_iff: "any_contains msg ps \<longleftrightarrow> (\<exists>p\<in>set ps. contains msg p)"
  by (induction ps) auto

lemma toLower_clientErrors: "p \<in> set clientErrors \<Longrightarrow> toLower p = p"
  by (auto simp: clientErrors_def toLower_def)

lemma isClientError_coinbase_iff:
  "isClientError_coinbase cbErr
   \<longleftrightarrow> (\<exists>p\<in>set clientErrors. \<exists>u v. toLower (client_error_text cbErr) = u @ p @ v)"
  by (auto simp: isClientError_coinbase_def any_contains_iff contains_def contains_loop_iff
      toLower_clientErrors)

lemma isClientError_prime_iff:
  "isClientError_prime primeErr
   \<longleftrightarrow> Code primeErr \<in> {''INVALID_ARGUMENT'', ''INVALID_PRODUCT'', ''INVALID_ORDER'',
         ''INVALID_ORDER_ID'', ''INVALID_PORTFOLIO'', ''INVALID_PORTFOLIO_ID'',
         ''INSUFFICIENT_FUNDS'', ''ORDER_NOT_FOUND'', ''VALIDATION_ERROR''}"
  by (simp add: isClientError_prime_def clientErrorCodes_def)

lemma coinbase_status_400:
  assumes "body \<noteq> []" and "unmarshal body = Some cbErr"
  shows "NormalizeError_coinbase unmarshal 400 body
         = (if isClientError_coinbase cbErr
            then PermanentError (formatErrorMessage_coinbase cbErr @ '' (status: '' @ FormatInt 400 @ '')'')
                   ''INVALID_REQUEST''
            else TemporaryError (formatErrorMessage_coinbase cbErr @ '' (status: '' @ FormatInt 400 @ '')'')
                   ''BAD_REQUEST'')"
  using assms
  by (simp add: NormalizeError_coinbase_def classifyError_coinbase_def Let_def
      StatusUnauthorized_def StatusForbidden_def StatusTooManyRequests_def StatusBadRequest_def)

lemma prime_status_400:
  assumes "body \<noteq> []" and "unmarshal body = Some primeErr"
  shows "NormalizeError_prime unmarshal marshal 400 body
         = (if isClientError_prime primeErr
            then PermanentError (formatErrorMessage_prime marshal primeErr @ '' (status: '' @ FormatInt 400 @ '')'')
                   (Code primeErr)
            else TemporaryError (formatErrorMessage_prime marshal primeErr @ '' (status: '' @ FormatInt 400 @ '')'')
                   (Code primeErr))"
  using assms
  by (simp add: NormalizeError_prime_def classifyError_prime_def Let_def
      StatusUnauthorized_def StatusForbidden_def StatusTooManyRequests_def StatusBadRequest_def)

text \<open>
  Claim C5 does not hold for the Prime normalizer: the body
  \<open>{"message": "Insufficient funds", "code": "insufficient_funds"}\<close> decodes, its code
  matches the venue's entry \<open>INSUFFICIENT_FUNDS\<close> and its message the keyword
  \<open>insufficient\<close> by the case-insensitive substring test, and yet the status 400 gives a
  temporary error.
\<close>

theorem prime_keyword_match_counterexample:
  "unmarshal_PrimeError prime_lowercase_body
     = Some (sample_PrimeError ''Insufficient funds'' ''insufficient_funds'')
   \<and> clientErrorCodes ''INSUFFICIENT_FUNDS'' = Some True
   \<and> contains ''insufficient_funds'' ''INSUFFICIENT_FUNDS''
   \<and> contains ''Insufficient funds'' ''insufficient''
   \<and> IsTemporaryError (NormalizeError_prime unmarshal_PrimeError marshal_details 400 prime_lowercase_body)
   \<and> \<not> IsPermanent (NormalizeError_prime unmarshal_PrimeError marshal_details 400 prime_lowercase_body)"
proof -
  have u: "unmarshal_PrimeError prime_lowercase_body
             = Some (sample_PrimeError ''Insufficient funds'' ''insufficient_funds'')"
    by code_simp
  have n: "prime_lowercase_body \<noteq> []"
    by code_simp
  have c: "\<not> isClientError_prime (sample_PrimeError ''Insufficient funds'' ''insufficient_funds'')"
    by code_simp
  have k: "clientErrorCodes ''INSUFFICIENT_FUNDS'' = Some True"
    by code_simp
  have m: "contains ''insufficient_funds'' ''INSUFFICIENT_FUNDS''"
    by code_simp
  have m': "contains ''Insufficient funds'' ''insufficient''"
    by code_simp
  show ?thesis
    using prime_status_400 [of prime_lowercase_body unmarshal_PrimeError
        "sample_PrimeError ''Insufficient funds'' ''insufficient_funds''" marshal_details]
    by (simp add: u k m m' c n)
qed

text \<open>
  Claim C5, amended. With the status 400 and a body that is not empty and decodes:
  the Coinbase normalizer returns a permanent error exactly when one of its keywords
  occurs in the lower-cased text made of the fields \<open>error\<close>, \<open>message\<close> and
  \<open>error_details\<close> joined by spaces, and a temporary error otherwise; the Prime
  normalizer returns a permanent error exactly when the \<open>code\<close> field is, letter for
  letter, one of its nine client error codes, and a temporary error otherwise.
\<close>

theorem bad_request_classification:
  "(body \<noteq> [] \<and> unmarshal_c body = Some cbErr \<longrightarrow>
      (IsPermanent (NormalizeError_coinbase unmarshal_c 400 body)
         \<longleftrightarrow> (\<exists>p\<in>set clientErrors. \<exists>u v. toLower (client_error_text cbErr) = u @ p @ v))
      \<and> (IsTemporaryError (NormalizeError_coinbase unmarshal_c 400 body)
         \<longleftrightarrow> \<not> (\<exists>p\<in>set clientErrors. \<exists>u v. toLower (client_error_text cbErr) = u @ p @ v)))
   \<and> (body \<noteq> [] \<and> unmarshal_p body = Some primeErr \<longrightarrow>
      (IsPermanent (NormalizeError_prime unmarshal_p marshal 400 body)
         \<longleftrightarrow> Code primeErr \<in> {''INVALID_ARGUMENT'', ''INVALID_PRODUCT'', ''INVALID_ORDER'',
               ''INVALID_ORDER_ID'', ''INVALID_PORTFOLIO'', ''INVALID_PORTFOLIO_ID'',
               ''INSUFFICIENT_FUNDS'', ''ORDER_NOT_FOUND'', ''VALIDATION_ERROR''})
      \<and> (IsTemporaryError (NormalizeError_prime unmarshal_p marshal 400 body)
         \<longleftrightarrow> Code primeErr \<notin> {''INVALID_ARGUMENT'', ''INVALID_PRODUCT'', ''INVALID_ORDER'',
               ''INVALID_ORDER_ID'', ''INVALID_PORTFOLIO'', ''INVALID_PORTFOLIO_ID'',
               ''INSUFFICIENT_FUNDS'', ''ORDER_NOT_FOUND'', ''VALIDATION_ERROR''}))"
proof (intro conjI impI)
  assume a: "body \<noteq> [] \<and> unmarshal_c body = Some cbErr"
  show "IsPermanent (NormalizeError_coinbase unmarshal_c 400 body)
         \<longleftrightarrow> (\<exists>p\<in>set clientErrors. \<exists>u v. toLower (client_error_text cbErr) = u @ p @ v)"
    using a coinbase_status_400 [of body unmarshal_c cbErr]
    by (simp add: isClientError_coinbase_iff [symmetric])
  show "IsTemporaryError (NormalizeError_coinbase unmarshal_c 400 body)
         \<longleftrightarrow> \<not> (\<exists>p\<in>set clientErrors. \<exists>u v. toLower (client_error_text cbErr) = u @ p @ v)"
    using a coinbase_status_400 [of body unmarshal_c cbErr]
    by (simp add: isClientError_coinbase_iff [symmetric])
next
  assume a: "body \<noteq> [] \<and> unmarshal_p body = Some primeErr"
  show "IsPermanent (NormalizeError_prime unmarshal_p marshal 400 body)
         \<longleftrightarrow> Code primeErr \<in> {''INVALID_ARGUMENT'', ''INVALID_PRODUCT'', ''INVALID_ORDER'',
               ''INVALID_ORDER_ID'', ''INVALID_PORTFOLIO'', ''INVALID_PORTFOLIO_ID'',
               ''INSUFFICIENT_FUNDS'', ''ORDER_NOT_FOUND'', ''VALIDATION_ERROR''}"
    using a prime_status_400 [of body unmarshal_p primeErr marshal]
    by (simp add: isClientError_prime_iff [symmetric] del: insert_iff)
  show "IsTemporaryError (NormalizeError_prime unmarshal_p marshal 400 body)
         \<longleftrightarrow> Code primeErr \<notin> {''INVALID_ARGUMENT'', ''INVALID_PRODUCT'', ''INVALID_ORDER'',
               ''INVALID_ORDER_ID'', ''INVALID_PORTFOLIO'', ''INVALID_PORTFOLIO_ID'',
               ''INSUFFICIENT_FUNDS'', ''ORDER_NOT_FOUND'', ''VALIDATION_ERROR''}"
    using a prime_status_400 [of body unmarshal_p primeErr marshal]
    by (simp add: isClientError_prime_iff [symmetric] del: insert_iff)
qed


theorem bad_request_classification_witness:
  "IsPermanent (NormalizeError_coinbase unmarshal_CoinbaseError 400 insufficient_funds_body)
   \<and> IsTemporaryError (NormalizeError_coinbase unmarshal_CoinbaseError 400 processing_error_body)
   \<and> IsPermanent (NormalizeError_prime unmarshal_PrimeError marshal_details 400 prime_invalid_order_body)
   \<and> IsTemporaryError (NormalizeError_prime unmarshal_PrimeError marshal_details 400 prime_lowercase_body)"
proof -
  let ?c1 = "sample_CoinbaseError ''insufficient_funds'' ''Not enough balance''"
  let ?c2 = "sample_CoinbaseError ''processing_error'' ''Request failed''"
  let ?p1 = "sample_PrimeError ''Invalid order'' ''INVALID_ORDER''"
  let ?p2 = "sample_PrimeError ''Insufficient funds'' ''insufficient_funds''"
  have b1: "insufficient_funds_body \<noteq> [] \<and> unmarshal_CoinbaseError insufficient_funds_body = Some ?c1"
    by code_simp
  have b2: "processing_error_body \<noteq> [] \<and> unmarshal_CoinbaseError processing_error_body = Some ?c2"
    by code_simp
  have b3: "prime_invalid_order_body \<noteq> [] \<and> unmarshal_PrimeError prime_invalid_order_body = Some ?p1"
    by code_simp
  have b4: "prime_lowercase_body \<noteq> [] \<and> unmarshal_PrimeError prime_lowercase_body = Some ?p2"
    by code_simp
  have k1: "isClientError_coinbase ?c1"
    by code_simp
  have k2: "\<not> isClientError_coinbase ?c2"
    by code_simp
  have k3: "Code ?p1 = ''INVALID_ORDER''" and k4: "Code ?p2 = ''insufficient_funds''"
    by (simp_all add: sample_PrimeError_def)
  have "IsPermanent (NormalizeError_coinbase unmarshal_CoinbaseError 400 insufficient_funds_body)"
    using bad_request_classification [of insufficient_funds_body unmarshal_CoinbaseError ?c1
        unmarshal_PrimeError ?p1 marshal_details] b1 k1
    by (simp add: isClientError_coinbase_iff)
  moreover
  have "IsTemporaryError (NormalizeError_coinbase unmarshal_CoinbaseError 400 processing_error_body)"
    using bad_request_classification [of processing_error_body unmarshal_CoinbaseError ?c2
        unmarshal_PrimeError ?p1 marshal_details] b2 k2
    by (simp add: isClientError_coinbase_iff)
  moreover
  have "IsPermanent (NormalizeError_prime unmarshal_PrimeError marshal_details 400 prime_invalid_order_body)"
    using bad_request_classification [of prime_invalid_order_body unmarshal_CoinbaseError ?c1
        unmarshal_PrimeError ?p1 marshal_details] b3 k3
    by simp
  moreover
  have "IsTemporaryError (NormalizeError_prime unmarshal_PrimeError marshal_details 400 prime_lowercase_body)"
    using bad_request_classification [of prime_lowercase_body unmarshal_CoinbaseError ?c1
        unmarshal_PrimeError ?p2 marshal_details] b4 k4
    by simp
  ultimately show ?thesis by simp
qed

section \<open>Properties of the timestamp parser\<close>

subsection \<open>TrimSpace strips all the white space\<close>

lemma strip_one_shorter: "strip_one es s = Some s' \<Longrightarrow> length s' < length s"
proof (induction es)
  case Nil
  then show ?case by simp
next
  case (Cons e es)
  show ?case
  proof (cases "e \<noteq> [] \<and> take (length e) s = e")
    case True
    then have "s' = drop (length e) s" and "s \<noteq> []" and "e \<noteq> []"
      using Cons.prems by auto
    then show ?thesis by simp
  next
    case False
    then show ?thesis using Cons by auto
  qed
qed

text \<open>The bound on the number of stripped encodings is never reached.\<close>

lemma trim_front_done: "length s \<le> n \<Longrightarrow> strip_one es (trim_front n es s) = None"
proof (induction n arbitrary: s)
  case 0
  have "strip_one es [] = None"
    by (induction es) auto
  with 0 show ?case by simp
next
  case (Suc n)
  show ?case
  proof (cases "strip_one es s")
    case None
    then show ?thesis by simp
  next
    case (Some s')
    then have "length s' \<le> n"
      using strip_one_shorter [of es s s'] Suc.prems by simp
    then show ?thesis using Some Suc.IH by simp
  qed
qed

lemma TrimSpace_no_trailing_space:
  "strip_one (map rev white_space_utf8) (rev (TrimSpace s)) = None"
  by (simp add: TrimSpace_def Let_def trim_front_done)

subsection \<open>Numeric timestamps\<close>

lemma is_digit_value: "is_digit c \<Longrightarrow> 0 \<le> (of_char c :: int) - 48"
proof -
  assume "is_digit c"
  then have "(48::nat) \<le> (of_char c :: nat)" by (simp add: is_digit_def)
  moreover have "(of_char c :: int) = int (of_char c :: nat)" by (simp add: of_nat_of_char)
  ultimately show ?thesis by linarith
qed

lemma foldl_digits_nonneg:
  "list_all is_digit ds \<Longrightarrow> 0 \<le> acc
   \<Longrightarrow> 0 \<le> foldl (\<lambda>acc c. 10 * acc + ((of_char c :: int) - 48)) acc ds"
proof (induction ds arbitrary: acc)
  case Nil
  then show ?case by simp
next
  case (Cons c cs)
  from Cons.prems have "0 \<le> 10 * acc + ((of_char c :: int) - 48)"
    using is_digit_value [of c] by simp
  with Cons show ?case by simp
qed

lemma digits_val_nonneg: "list_all is_digit ds \<Longrightarrow> 0 \<le> digits_val ds"
  unfolding digits_val_def by (rule foldl_digits_nonneg) simp_all

lemma minus_no_digit: "\<not> is_digit (CHR ''-'')" and plus_no_digit: "\<not> is_digit (CHR ''+'')"
  by (simp_all add: is_digit_def)

lemma isNumeric_digits: "s \<noteq> [] \<Longrightarrow> list_all is_digit s \<Longrightarrow> isNumeric s"
  using minus_no_digit by (cases s) (auto simp: Let_def)

lemma isNumeric_minus: "ds \<noteq> [] \<Longrightarrow> list_all is_digit ds \<Longrightarrow> isNumeric (CHR ''-'' # ds)"
  by (simp add: Let_def)

lemma ParseInt_digits:
  assumes "s \<noteq> []" and "list_all is_digit s"
  shows "ParseInt s = (if digits_val s < 2 ^ 63 then Some (digits_val s) else None)"
proof -
  from assms obtain c cs where s: "s = c # cs" and c: "is_digit c"
    by (cases s) auto
  from c have "c \<noteq> CHR ''-''" and "c \<noteq> CHR ''+''"
    using minus_no_digit plus_no_digit by auto
  with assms(2) show ?thesis
    unfolding s ParseInt_def by (simp add: Let_def)
qed

lemma ParseInt_minus:
  assumes "ds \<noteq> []" and "list_all is_digit ds"
  shows "ParseInt (CHR ''-'' # ds)
         = (if digits_val ds \<le> 2 ^ 63 then Some (- digits_val ds) else None)"
  using assms unfolding ParseInt_def by (simp add: Let_def)

lemma go_div_nonneg: "0 \<le> a \<Longrightarrow> 0 < b \<Longrightarrow> go_div a b = a div b"
  by (cases "a = 0") (simp_all add: go_div_def)

lemma go_rem_nonneg: "0 \<le> a \<Longrightarrow> 0 < b \<Longrightarrow> go_rem a b = a mod b"
  by (simp add: go_rem_def go_div_nonneg minus_mult_div_eq_mod)

lemma time_Unix_in_range:
  "0 \<le> nsec \<Longrightarrow> nsec < 1000000000 \<Longrightarrow> time_Unix sec nsec = \<lparr>Seconds = sec, Nanos = nsec\<rparr>"
  by (simp add: time_Unix_def)

lemma parseUnixTimestamp_digits:
  assumes "s \<noteq> []" and "list_all is_digit s"
  shows "parseUnixTimestamp s =
     (let n = digits_val s
      in if n < 10 ^ 11 then Inr (Some \<lparr>Seconds = n, Nanos = 0\<rparr>)
         else if n < 10 ^ 14 then Inr (Some \<lparr>Seconds = n div 1000, Nanos = (n mod 1000) * 10 ^ 6\<rparr>)
         else if n < 10 ^ 17 then Inr (Some \<lparr>Seconds = n div 10 ^ 6, Nanos = (n mod 10 ^ 6) * 1000\<rparr>)
         else if n < 2 ^ 63 then Inl (ErrUnixOutOfRange n)
         else Inl ErrInvalidUnixTimestamp)"
proof -
  let ?n = "digits_val s"
  have n0: "0 \<le> ?n" using assms(2) by (rule digits_val_nonneg)
  have m1: "0 \<le> (?n mod 1000) * 1000000" "(?n mod 1000) * 1000000 < 1000000000"
    by simp_all
  have m2: "0 \<le> (?n mod 1000000) * 1000" "(?n mod 1000000) * 1000 < 1000000000"
    by simp_all
  show ?thesis
    using n0
    by (simp add: parseUnixTimestamp_def ParseInt_digits [OF assms] Let_def go_div_nonneg
        go_rem_nonneg time_Unix_in_range m1 m2)
qed

lemma parseUnixTimestamp_minus:
  assumes "ds \<noteq> []" and "list_all is_digit ds"
  shows "parseUnixTimestamp (CHR ''-'' # ds) =
     (if digits_val ds \<le> 2 ^ 63 then Inr (Some \<lparr>Seconds = - digits_val ds, Nanos = 0\<rparr>)
      else Inl ErrInvalidUnixTimestamp)"
proof -
  have "0 \<le> digits_val ds" using assms(2) by (rule digits_val_nonneg)
  then show ?thesis
    by (simp add: parseUnixTimestamp_def ParseInt_minus [OF assms] time_Unix_in_range)
qed

lemma null_not_numeric: "\<not> list_all is_digit ''null''" "\<not> isNumeric ''null''"
  by (simp_all add: is_digit_def Let_def)

lemma ParseTimestamp_digits:
  assumes "TrimSpace s \<noteq> []" and "list_all is_digit (TrimSpace s)"
  shows "ParseTimestamp tp s = parseUnixTimestamp (TrimSpace s)"
proof -
  have "TrimSpace s \<noteq> ''null''"
    using assms(2) null_not_numeric(1) by auto
  then show ?thesis
    using assms by (simp add: ParseTimestamp_def Let_def isNumeric_digits)
qed

lemma try_formats_None:
  "(\<forall>f\<in>set fs. tp f s = None) \<Longrightarrow> try_formats tp fs s = None"
  by (induction fs) simp_all

lemma ParseTimestamp_RFC3339:
  assumes "tp RFC3339 ''2021-01-01T00:00:00Z'' = Some t"
  shows "ParseTimestamp tp ''2021-01-01T00:00:00Z'' = Inr (Some t)"
proof -
  have t: "TrimSpace ''2021-01-01T00:00:00Z'' = ''2021-01-01T00:00:00Z''"
    by code_simp
  have n: "\<not> isNumeric ''2021-01-01T00:00:00Z''"
    by code_simp
  show ?thesis
    using assms by (simp add: ParseTimestamp_def t n formats_def del: isNumeric.simps)
qed

lemma epoch_2021: "unix_of_utc 2021 1 1 0 0 0 = 1609459200"
  by code_simp

lemma unix_examples:
  "ParseTimestamp tp ''1609459200'' = Inr (Some \<lparr>Seconds = 1609459200, Nanos = 0\<rparr>)"
  "ParseTimestamp tp ''1609459200000'' = Inr (Some \<lparr>Seconds = 1609459200, Nanos = 0\<rparr>)"
  "ParseTimestamp tp ''1609459200000000'' = Inr (Some \<lparr>Seconds = 1609459200, Nanos = 0\<rparr>)"
proof -
  have a: "TrimSpace ''1609459200'' = ''1609459200''"
    "list_all is_digit ''1609459200''" "digits_val ''1609459200'' = 1609459200"
    by code_simp+
  have b: "TrimSpace ''1609459200000'' = ''1609459200000''"
    "list_all is_digit ''1609459200000''" "digits_val ''1609459200000'' = 1609459200000"
    by code_simp+
  have c: "TrimSpace ''1609459200000000'' = ''1609459200000000''"
    "list_all is_digit ''1609459200000000''"
    "digits_val ''1609459200000000'' = 1609459200000000"
    by code_simp+
  show "ParseTimestamp tp ''1609459200'' = Inr (Some \<lparr>Seconds = 1609459200, Nanos = 0\<rparr>)"
    using a by (simp add: ParseTimestamp_digits parseUnixTimestamp_digits)
  show "ParseTimestamp tp ''1609459200000'' = Inr (Some \<lparr>Seconds = 1609459200, Nanos = 0\<rparr>)"
    using b by (simp add: ParseTimestamp_digits parseUnixTimestamp_digits)
  show "ParseTimestamp tp ''1609459200000000'' = Inr (Some \<lparr>Seconds = 1609459200, Nanos = 0\<rparr>)"
    using c by (simp add: ParseTimestamp_digits parseUnixTimestamp_digits)
qed

text \<open>
  Claim C6. With \<open>t\<close> the input after \<open>TrimSpace\<close>: an empty \<open>t\<close> and \<open>null\<close>
  give no value and no error; a \<open>t\<close> made of digits only, of value \<open>n\<close>, gives the
  instant \<open>n\<close> seconds after the epoch when \<open>n < 10\<^sup>1\<^sup>1\<close>, \<open>n\<close> milliseconds when
  \<open>n < 10\<^sup>1\<^sup>4\<close>, \<open>n\<close> microseconds when \<open>n < 10\<^sup>1\<^sup>7\<close>, and an error for a larger
  \<open>n\<close>; the three strings \<open>1609459200\<close>, \<open>1609459200000\<close> and \<open>1609459200000000\<close>
  give the instant 2021-01-01 00:00:00 UTC, which is also what
  \<open>2021-01-01T00:00:00Z\<close> gives when \<open>time.Parse\<close> reads it under RFC3339 as that
  instant; and a \<open>t\<close> that is not numeric and that no layout parses gives an error.
\<close>

theorem ParseTimestamp_cases:
  "(TrimSpace s = [] \<or> TrimSpace s = ''null'' \<longrightarrow> ParseTimestamp tp s = Inr None)
   \<and> (TrimSpace s \<noteq> [] \<and> list_all is_digit (TrimSpace s) \<longrightarrow>
        ParseTimestamp tp s =
          (let n = digits_val (TrimSpace s)
           in if n < 10 ^ 11 then Inr (Some \<lparr>Seconds = n, Nanos = 0\<rparr>)
              else if n < 10 ^ 14
                then Inr (Some \<lparr>Seconds = n div 1000, Nanos = (n mod 1000) * 10 ^ 6\<rparr>)
              else if n < 10 ^ 17
                then Inr (Some \<lparr>Seconds = n div 10 ^ 6, Nanos = (n mod 10 ^ 6) * 1000\<rparr>)
              else if n < 2 ^ 63 then Inl (ErrUnixOutOfRange n)
              else Inl ErrInvalidUnixTimestamp))
   \<and> ParseTimestamp tp ''1609459200''
       = Inr (Some \<lparr>Seconds = unix_of_utc 2021 1 1 0 0 0, Nanos = 0\<rparr>)
   \<and> ParseTimestamp tp ''1609459200000''
       = Inr (Some \<lparr>Seconds = unix_of_utc 2021 1 1 0 0 0, Nanos = 0\<rparr>)
   \<and> ParseTimestamp tp ''1609459200000000''
       = Inr (Some \<lparr>Seconds = unix_of_utc 2021 1 1 0 0 0, Nanos = 0\<rparr>)
   \<and> (tp RFC3339 ''2021-01-01T00:00:00Z''
         = Some \<lparr>Seconds = unix_of_utc 2021 1 1 0 0 0, Nanos = 0\<rparr>
       \<longrightarrow> ParseTimestamp tp ''2021-01-01T00:00:00Z'' = ParseTimestamp tp ''1609459200'')
   \<and> (TrimSpace s \<noteq> [] \<and> TrimSpace s \<noteq> ''null'' \<and> \<not> isNumeric (TrimSpace s)
        \<and> (\<forall>f\<in>set formats. tp f (TrimSpace s) = None)
       \<longrightarrow> ParseTimestamp tp s = Inl (ErrUnableToParseTimestamp (TrimSpace s)))"
proof (intro conjI impI)
  assume "TrimSpace s = [] \<or> TrimSpace s = ''null''"
  then show "ParseTimestamp tp s = Inr None"
    by (auto simp: ParseTimestamp_def)
next
  assume a: "TrimSpace s \<noteq> [] \<and> list_all is_digit (TrimSpace s)"
  then have "ParseTimestamp tp s = parseUnixTimestamp (TrimSpace s)"
    by (simp add: ParseTimestamp_digits)
  with a show "ParseTimestamp tp s =
          (let n = digits_val (TrimSpace s)
           in if n < 10 ^ 11 then Inr (Some \<lparr>Seconds = n, Nanos = 0\<rparr>)
              else if n < 10 ^ 14
                then Inr (Some \<lparr>Seconds = n div 1000, Nanos = (n mod 1000) * 10 ^ 6\<rparr>)
              else if n < 10 ^ 17
                then Inr (Some \<lparr>Seconds = n div 10 ^ 6, Nanos = (n mod 10 ^ 6) * 1000\<rparr>)
              else if n < 2 ^ 63 then Inl (ErrUnixOutOfRange n)
              else Inl ErrInvalidUnixTimestamp)"
    using parseUnixTimestamp_digits [of "TrimSpace s"] by simp
next
  show "ParseTimestamp tp ''1609459200''
       = Inr (Some \<lparr>Seconds = unix_of_utc 2021 1 1 0 0 0, Nanos = 0\<rparr>)"
    by (simp only: epoch_2021 unix_examples)
  show "ParseTimestamp tp ''1609459200000''
       = Inr (Some \<lparr>Seconds = unix_of_utc 2021 1 1 0 0 0, Nanos = 0\<rparr>)"
    by (simp only: epoch_2021 unix_examples)
  show "ParseTimestamp tp ''1609459200000000''
       = Inr (Some \<lparr>Seconds = unix_of_utc 2021 1 1 0 0 0, Nanos = 0\<rparr>)"
    by (simp only: epoch_2021 unix_examples)
next
  assume "tp RFC3339 ''2021-01-01T00:00:00Z''
         = Some \<lparr>Seconds = unix_of_utc 2021 1 1 0 0 0, Nanos = 0\<rparr>"
  then have "ParseTimestamp tp ''2021-01-01T00:00:00Z''
         = Inr (Some \<lparr>Seconds = unix_of_utc 2021 1 1 0 0 0, Nanos = 0\<rparr>)"
    by (rule ParseTimestamp_RFC3339)
  then show "ParseTimestamp tp ''2021-01-01T00:00:00Z'' = ParseTimestamp tp ''1609459200''"
    by (simp only: epoch_2021 unix_examples)
next
  assume a: "TrimSpace s \<noteq> [] \<and> TrimSpace s \<noteq> ''null'' \<and> \<not> isNumeric (TrimSpace s)
        \<and> (\<forall>f\<in>set formats. tp f (TrimSpace s) = None)"
  then have "try_formats tp formats (TrimSpace s) = None"
    by (simp add: try_formats_None)
  with a show "ParseTimestamp tp s = Inl (ErrUnableToParseTimestamp (TrimSpace s))"
    by (simp add: ParseTimestamp_def Let_def)
qed

theorem ParseTimestamp_cases_witness:
  "ParseTimestamp utc_seconds_Parse ''   '' = Inr None
   \<and> ParseTimestamp utc_seconds_Parse ''null'' = Inr None
   \<and> ParseTimestamp utc_seconds_Parse '' 1609459200123 ''
       = Inr (Some \<lparr>Seconds = 1609459200, Nanos = 123000000\<rparr>)
   \<and> ParseTimestamp utc_seconds_Parse ''100000000000000000''
       = Inl (ErrUnixOutOfRange 100000000000000000)
   \<and> ParseTimestamp utc_seconds_Parse ''2021-01-01T00:00:00Z''
       = ParseTimestamp utc_seconds_Parse ''1609459200''
   \<and> ParseTimestamp utc_seconds_Parse ''not-a-timestamp''
       = Inl (ErrUnableToParseTimestamp ''not-a-timestamp'')"
proof -
  have e: "TrimSpace ''   '' = []" "TrimSpace ''null'' = ''null''"
    by code_simp+
  have m: "TrimSpace '' 1609459200123 '' = ''1609459200123''"
    "list_all is_digit ''1609459200123''" "digits_val ''1609459200123'' = 1609459200123"
    by code_simp+
  have l: "TrimSpace ''100000000000000000'' = ''100000000000000000''"
    "list_all is_digit ''100000000000000000''"
    "digits_val ''100000000000000000'' = 100000000000000000"
    by code_simp+
  have r: "utc_seconds_Parse RFC3339 ''2021-01-01T00:00:00Z''
             = Some \<lparr>Seconds = unix_of_utc 2021 1 1 0 0 0, Nanos = 0\<rparr>"
    by code_simp
  have x: "TrimSpace ''not-a-timestamp'' = ''not-a-timestamp''"
    "\<not> isNumeric ''not-a-timestamp''"
    "\<forall>f\<in>set formats. utc_seconds_Parse f ''not-a-timestamp'' = None"
    by code_simp+
  have "ParseTimestamp utc_seconds_Parse ''   '' = Inr None"
    using ParseTimestamp_cases [of "''   ''" utc_seconds_Parse] e by simp
  moreover
  have "ParseTimestamp utc_seconds_Parse ''null'' = Inr None"
    using ParseTimestamp_cases [of "''null''" utc_seconds_Parse] e by simp
  moreover
  have "ParseTimestamp utc_seconds_Parse '' 1609459200123 ''
       = Inr (Some \<lparr>Seconds = 1609459200, Nanos = 123000000\<rparr>)"
    using ParseTimestamp_cases [of "'' 1609459200123 ''" utc_seconds_Parse] m by simp
  moreover
  have "ParseTimestamp utc_seconds_Parse ''100000000000000000''
       = Inl (ErrUnixOutOfRange 100000000000000000)"
    using ParseTimestamp_cases [of "''100000000000000000''" utc_seconds_Parse] l by simp
  moreover
  have "ParseTimestamp utc_seconds_Parse ''2021-01-01T00:00:00Z''
       = ParseTimestamp utc_seconds_Parse ''1609459200''"
    using ParseTimestamp_cases [of "[]" utc_seconds_Parse] r by blast
  moreover
  have "ParseTimestamp utc_seconds_Parse ''not-a-timestamp''
       = Inl (ErrUnableToParseTimestamp ''not-a-timestamp'')"
    using ParseTimestamp_cases [of "''not-a-timestamp''" utc_seconds_Parse] x by simp
  ultimately show ?thesis by blast
qed

text \<open>
  Claim C10 does not hold for every numeric string with a leading minus sign: a value
  below \<open>-2\<^sup>6\<^sup>3\<close> is out of the range of \<open>strconv.ParseInt\<close>, and the parser returns
  an error.
\<close>

theorem negative_timestamp_counterexample:
  "isNumeric ''-9223372036854775809''
   \<and> ParseTimestamp utc_seconds_Parse ''-9223372036854775809'' = Inl ErrInvalidUnixTimestamp"
  by code_simp

text \<open>
  Claim C10, amended. A string that, once trimmed, is a minus sign followed by digits of
  value \<open>v\<close> is taken by the numeric path; when \<open>v \<le> 2\<^sup>6\<^sup>3\<close> the parser succeeds with
  the instant \<open>v\<close> seconds before the epoch (the below-\<open>10\<^sup>1\<^sup>1\<close> branch), and when
  \<open>v > 2\<^sup>6\<^sup>3\<close> it returns an error.
\<close>

theorem negative_timestamp_is_seconds:
  assumes "TrimSpace s = CHR ''-'' # ds" and "ds \<noteq> []" and "list_all is_digit ds"
  shows "isNumeric (TrimSpace s)
       \<and> (digits_val ds \<le> 2 ^ 63 \<longrightarrow>
            ParseTimestamp tp s = Inr (Some \<lparr>Seconds = - digits_val ds, Nanos = 0\<rparr>)
            \<and> - digits_val ds \<le> 0)
       \<and> (digits_val ds > 2 ^ 63 \<longrightarrow> ParseTimestamp tp s = Inl ErrInvalidUnixTimestamp)"
proof -
  have n: "isNumeric (TrimSpace s)"
    using assms by (simp add: isNumeric_minus)
  have "TrimSpace s \<noteq> []" and "TrimSpace s \<noteq> ''null''"
    using assms(1) by simp_all
  then have p: "ParseTimestamp tp s = parseUnixTimestamp (CHR ''-'' # ds)"
    using n assms(1) by (simp add: ParseTimestamp_def Let_def)
  have "0 \<le> digits_val ds"
    using assms(3) by (rule digits_val_nonneg)
  then show ?thesis
    using n p by (simp add: parseUnixTimestamp_minus [OF assms(2,3)])
qed

theorem negative_timestamp_is_seconds_witness:
  "TrimSpace ''-5'' = ''-5'' \<and> digits_val ''5'' = 5
   \<and> ParseTimestamp utc_seconds_Parse ''-5'' = Inr (Some \<lparr>Seconds = - 5, Nanos = 0\<rparr>)
   \<and> TrimSpace ''-9223372036854775809'' = ''-9223372036854775809''
   \<and> digits_val ''9223372036854775809'' = 9223372036854775809
   \<and> ParseTimestamp utc_seconds_Parse ''-9223372036854775809'' = Inl ErrInvalidUnixTimestamp"
proof -
  have a: "TrimSpace ''-5'' = CHR ''-'' # ''5''" "''5'' \<noteq> []" "list_all is_digit ''5''"
    by code_simp+
  have b: "digits_val ''5'' = 5"
    by code_simp
  have c: "TrimSpace ''-9223372036854775809'' = CHR ''-'' # ''9223372036854775809''"
    "''9223372036854775809'' \<noteq> []" "list_all is_digit ''9223372036854775809''"
    by code_simp+
  have d: "digits_val ''9223372036854775809'' = 9223372036854775809"
    by code_simp
  show ?thesis
    using negative_timestamp_is_seconds [OF a, of utc_seconds_Parse]
      negative_timestamp_is_seconds [OF c, of utc_seconds_Parse] a(1) b c(1) d
    by simp
qed

section \<open>Properties of the order-book normalizers\<close>

subsection \<open>The Prime level parser\<close>

lemma levels_loop_prime_Inr_iff:
  "levels_loop_prime ops i ls acc = Inr r
   \<longleftrightarrow> (\<forall>l\<in>set ls. level_pair_prime ops l \<noteq> None) \<and> r = acc @ concat (map (kept_prime ops) ls)"
proof (induction ls arbitrary: i acc)
  case Nil
  show ?case by auto
next
  case (Cons level rest)
  show ?case
  proof (cases "level_pair_prime ops level")
    case None
    then have "\<exists>e. levels_loop_prime ops i (level # rest) acc = Inl e"
      by (auto simp: level_pair_prime_def split: if_splits option.splits)
    with None show ?thesis by auto
  next
    case (Some pq)
    obtain price sz where pq: "pq = (price, sz)" by (cases pq)
    from Some pq have l: "\<not> length level < 2" "level_number ops (level ! 0) = Some price"
      "level_number ops (level ! 1) = Some sz"
      by (auto simp: level_pair_prime_def split: if_splits option.splits)
    show ?thesis
    proof (cases "f_eq ops price (f_zero ops) \<and> f_eq ops sz (f_zero ops)")
      case True
      then have "kept_prime ops level = []"
        using Some pq by (simp add: kept_prime_def)
      moreover have "levels_loop_prime ops i (level # rest) acc = levels_loop_prime ops (Suc i) rest acc"
        using l True by simp
      ultimately show ?thesis
        using Some Cons.IH [of "Suc i" acc] by simp
    next
      case False
      then have "kept_prime ops level = [\<lparr>Price = Some price, Quantity = Some sz, OrderCount = None\<rparr>]"
        using Some pq by (auto simp: kept_prime_def)
      moreover have "levels_loop_prime ops i (level # rest) acc
          = levels_loop_prime ops (Suc i) rest
              (acc @ [\<lparr>Price = Some price, Quantity = Some sz, OrderCount = None\<rparr>])"
        using l False by auto
      ultimately show ?thesis
        using Some Cons.IH [of "Suc i" "acc @ [\<lparr>Price = Some price, Quantity = Some sz, OrderCount = None\<rparr>]"]
        by simp
    qed
  qed
qed

lemma parse_prime_Inr_iff:
  "parseOrderBookLevels_prime ops (Some ls) = Inr r
   \<longleftrightarrow> (\<forall>l\<in>set ls. level_pair_prime ops l \<noteq> None) \<and> r = concat (map (kept_prime ops) ls)"
  by (simp add: parseOrderBookLevels_prime_def levels_loop_prime_Inr_iff)

lemma length_kept_prime: "length (kept_prime ops l) \<le> 1"
  by (simp add: kept_prime_def split: option.splits prod.splits)

lemma length_concat_kept: "length (concat (map (kept_prime ops) ls)) \<le> length ls"
proof (induction ls)
  case Nil
  show ?case by simp
next
  case (Cons l ls)
  then show ?case using length_kept_prime [of ops l] by simp
qed

text \<open>
  Claim C9. In the Prime level parser, a level of at least two elements whose parsed price
  and size are both zero raises no error and adds no entry: the list parses, with the same
  result, whether the level is there or not, so the result is strictly shorter than the
  input. A level with one zero component and one non-zero component is kept.
\<close>

theorem prime_zero_levels_dropped:
  assumes "2 \<le> length level"
    and "level_number ops (level ! 0) = Some price"
    and "level_number ops (level ! 1) = Some sz"
  shows "(f_eq ops price (f_zero ops) \<and> f_eq ops sz (f_zero ops) \<longrightarrow>
           (\<forall>r. parseOrderBookLevels_prime ops (Some (before @ level # after)) = Inr r
                \<longleftrightarrow> parseOrderBookLevels_prime ops (Some (before @ after)) = Inr r)
           \<and> (\<forall>r. parseOrderBookLevels_prime ops (Some (before @ level # after)) = Inr r
                \<longrightarrow> length r < length (before @ level # after)))
       \<and> (\<not> (f_eq ops price (f_zero ops) \<and> f_eq ops sz (f_zero ops)) \<longrightarrow>
           (\<forall>r. parseOrderBookLevels_prime ops (Some (before @ level # after)) = Inr r
                \<longrightarrow> \<lparr>Price = Some price, Quantity = Some sz, OrderCount = None\<rparr> \<in> set r))"
proof -
  have p: "level_pair_prime ops level = Some (price, sz)"
    using assms by (simp add: level_pair_prime_def)
  show ?thesis
  proof (intro conjI impI allI)
    fix r
    assume z: "f_eq ops price (f_zero ops) \<and> f_eq ops sz (f_zero ops)"
    then have k: "kept_prime ops level = []"
      using p by (simp add: kept_prime_def)
    show "parseOrderBookLevels_prime ops (Some (before @ level # after)) = Inr r
          \<longleftrightarrow> parseOrderBookLevels_prime ops (Some (before @ after)) = Inr r"
      using p k by (auto simp: parse_prime_Inr_iff)
    assume "parseOrderBookLevels_prime ops (Some (before @ level # after)) = Inr r"
    then have "r = concat (map (kept_prime ops) before) @ concat (map (kept_prime ops) after)"
      using k by (simp add: parse_prime_Inr_iff)
    then have "length r \<le> length before + length after"
      using length_concat_kept [of ops before] length_concat_kept [of ops after] by simp
    then show "length r < length (before @ level # after)"
      by simp
  next
    fix r
    assume nz: "\<not> (f_eq ops price (f_zero ops) \<and> f_eq ops sz (f_zero ops))"
    then have k: "kept_prime ops level = [\<lparr>Price = Some price, Quantity = Some sz, OrderCount = None\<rparr>]"
      using p by (auto simp: kept_prime_def)
    assume "parseOrderBookLevels_prime ops (Some (before @ level # after)) = Inr r"
    then show "\<lparr>Price = Some price, Quantity = Some sz, OrderCount = None\<rparr> \<in> set r"
      using k by (simp add: parse_prime_Inr_iff)
  qed
qed

theorem prime_zero_levels_dropped_witness:
  "parseOrderBookLevels_prime rat_ops (Some [[IFloat64 0, IFloat64 0], [IFloat64 50000, IFloat64 (3 / 2)]])
     = Inr [\<lparr>Price = Some 50000, Quantity = Some (3 / 2), OrderCount = None\<rparr>]
   \<and> length [\<lparr>Price = Some (50000 :: rat), Quantity = Some (3 / 2 :: rat), OrderCount = None\<rparr>]
       < length [[IFloat64 0, IFloat64 0], [IFloat64 (50000 :: rat), IFloat64 (3 / 2)]]
   \<and> parseOrderBookLevels_prime rat_ops (Some [[IString ''0'', IFloat64 (3 / 2)]])
     = Inr [\<lparr>Price = Some 0, Quantity = Some (3 / 2), OrderCount = None\<rparr>]
   \<and> \<lparr>Price = Some (0 :: rat), Quantity = Some (3 / 2 :: rat), OrderCount = None\<rparr>
       \<in> set [\<lparr>Price = Some 0, Quantity = Some (3 / 2), OrderCount = None\<rparr>]"
proof -
  let ?zero = "[IFloat64 0, IFloat64 0] :: rat iface list"
  let ?half = "[IString ''0'', IFloat64 (3 / 2)] :: rat iface list"
  have z: "2 \<le> length ?zero" "level_number rat_ops (?zero ! 0) = Some 0"
    "level_number rat_ops (?zero ! 1) = Some 0"
    by (simp_all add: level_number_def)
  have e: "f_eq rat_ops 0 (f_zero rat_ops)"
    by (simp add: rat_ops_def)
  have r: "parseOrderBookLevels_prime rat_ops (Some ([] @ [[IFloat64 50000, IFloat64 (3 / 2)]]))
     = Inr [\<lparr>Price = Some 50000, Quantity = Some (3 / 2), OrderCount = None\<rparr>]"
    by code_simp
  have h: "2 \<le> length ?half" "level_number rat_ops (?half ! 0) = Some 0"
    "level_number rat_ops (?half ! 1) = Some (3 / 2)"
    by code_simp+
  have n: "\<not> (f_eq rat_ops 0 (f_zero rat_ops) \<and> f_eq rat_ops (3 / 2) (f_zero rat_ops))"
    by (simp add: rat_ops_def)
  have k: "parseOrderBookLevels_prime rat_ops (Some ([] @ ?half # []))
     = Inr [\<lparr>Price = Some 0, Quantity = Some (3 / 2), OrderCount = None\<rparr>]"
    by code_simp
  show ?thesis
    using prime_zero_levels_dropped [OF z, of "[]" "[[IFloat64 50000, IFloat64 (3 / 2)]]"]
      prime_zero_levels_dropped [OF h, of "[]" "[]"] e r n k
    by simp
qed

subsection \<open>Best prices, spread and mid price\<close>

lemma levels_loop_coinbase_priced:
  "levels_loop_coinbase ops i ls acc = Inr r \<Longrightarrow> \<forall>l\<in>set acc. Price l \<noteq> None
   \<Longrightarrow> \<forall>l\<in>set r. Price l \<noteq> None"
proof (induction ls arbitrary: i acc)
  case Nil
  then show ?case by simp
next
  case (Cons level rest)
  from Cons.prems(1) obtain priceStr quantityStr where
    "levels_loop_coinbase ops (Suc i) rest
       (acc @ [\<lparr>Price = Some (ParseDecimalOrZero ops priceStr),
                Quantity = Some (ParseDecimalOrZero ops quantityStr),
                OrderCount = (if length level > 2 then level_count ops (level ! 2) else None)\<rparr>])
     = Inr r"
    by (auto split: if_splits option.splits)
  moreover have "\<forall>l\<in>set (acc @ [\<lparr>Price = Some (ParseDecimalOrZero ops priceStr),
                Quantity = Some (ParseDecimalOrZero ops quantityStr),
                OrderCount = (if length level > 2 then level_count ops (level ! 2) else None)\<rparr>]).
           Price l \<noteq> None"
    using Cons.prems(2) by auto
  ultimately show ?case by (rule Cons.IH)
qed

lemma levels_loop_prime_priced:
  "levels_loop_prime ops i ls acc = Inr r \<Longrightarrow> \<forall>l\<in>set acc. Price l \<noteq> None
   \<Longrightarrow> \<forall>l\<in>set r. Price l \<noteq> None"
proof (induction ls arbitrary: i acc)
  case Nil
  then show ?case by simp
next
  case (Cons level rest)
  from Cons.prems(1) obtain acc' where
    "levels_loop_prime ops (Suc i) rest acc' = Inr r" and "\<forall>l\<in>set acc'. Price l \<noteq> None"
    using Cons.prems(2) by (auto split: if_splits option.splits)
  then show ?case by (rule Cons.IH)
qed

lemma parse_coinbase_priced:
  "parseOrderBookLevels_coinbase ops levels = Inr r \<Longrightarrow> \<forall>l\<in>set r. Price l \<noteq> None"
  using levels_loop_coinbase_priced [of ops 0 _ "[]" r]
  by (auto simp: parseOrderBookLevels_coinbase_def split: option.splits)

lemma parse_prime_priced:
  "parseOrderBookLevels_prime ops levels = Inr r \<Longrightarrow> \<forall>l\<in>set r. Price l \<noteq> None"
  using levels_loop_prime_priced [of ops 0 _ "[]" r]
  by (auto simp: parseOrderBookLevels_prime_def)

text \<open>The facts about a returned book that the two normalizers share.\<close>

lemma book_shape:
  assumes "NormalizeOrderBook_coinbase ops tp unmarshal_c now raw = Inr ob
         \<or> NormalizeOrderBook_prime ops tp unmarshal_p now raw = Inr ob"
  shows "BestBid ob = best_price (Bids ob)" and "BestAsk ob = best_price (Asks ob)"
    and "Spread ob = spread_of ops (BestBid ob) (BestAsk ob)"
    and "MidPrice ob = midPrice_of ops (BestBid ob) (BestAsk ob)"
    and "\<forall>l\<in>set (Bids ob). Price l \<noteq> None" and "\<forall>l\<in>set (Asks ob). Price l \<noteq> None"
proof -
  from assms have
    "BestBid ob = best_price (Bids ob) \<and> BestAsk ob = best_price (Asks ob)
     \<and> Spread ob = spread_of ops (BestBid ob) (BestAsk ob)
     \<and> MidPrice ob = midPrice_of ops (BestBid ob) (BestAsk ob)
     \<and> (\<forall>l\<in>set (Bids ob). Price l \<noteq> None) \<and> (\<forall>l\<in>set (Asks ob). Price l \<noteq> None)"
  proof
    assume "NormalizeOrderBook_coinbase ops tp unmarshal_c now raw = Inr ob"
    then show ?thesis
      by (auto simp: NormalizeOrderBook_coinbase_def Let_def dest: parse_coinbase_priced
          split: if_splits option.splits sum.splits)
  next
    assume "NormalizeOrderBook_prime ops tp unmarshal_p now raw = Inr ob"
    then show ?thesis
      by (auto simp: NormalizeOrderBook_prime_def Let_def dest: parse_prime_priced
          split: if_splits option.splits sum.splits)
  qed
  then show "BestBid ob = best_price (Bids ob)" and "BestAsk ob = best_price (Asks ob)"
    and "Spread ob = spread_of ops (BestBid ob) (BestAsk ob)"
    and "MidPrice ob = midPrice_of ops (BestBid ob) (BestAsk ob)"
    and "\<forall>l\<in>set (Bids ob). Price l \<noteq> None" and "\<forall>l\<in>set (Asks ob). Price l \<noteq> None"
    by simp_all
qed

text \<open>
  Claim C7. In a book returned by either normalizer, the best bid and the best ask are the
  prices of the first level of the returned bids and asks; when both lists have a level,
  the spread is the best ask minus the best bid and the mid price is their sum divided by
  two (in \<open>float64\<close> arithmetic); when a side has no level, its best price, the spread
  and the mid price are absent.
\<close>

theorem order_book_best_prices:
  assumes "NormalizeOrderBook_coinbase ops tp unmarshal_c now raw = Inr ob
         \<or> NormalizeOrderBook_prime ops tp unmarshal_p now raw = Inr ob"
  shows "(\<forall>b bs. Bids ob = b # bs \<longrightarrow> BestBid ob = Price b \<and> Price b \<noteq> None)
       \<and> (\<forall>a as. Asks ob = a # as \<longrightarrow> BestAsk ob = Price a \<and> Price a \<noteq> None)
       \<and> (\<forall>b bs a as pb pa.
             Bids ob = b # bs \<and> Asks ob = a # as \<and> Price b = Some pb \<and> Price a = Some pa
             \<longrightarrow> Spread ob = Some (f_sub ops pa pb)
                 \<and> MidPrice ob = Some (f_div ops (f_add ops pb pa) (f_of_int ops 2)))
       \<and> (Bids ob = [] \<longrightarrow> BestBid ob = None \<and> Spread ob = None \<and> MidPrice ob = None)
       \<and> (Asks ob = [] \<longrightarrow> BestAsk ob = None \<and> Spread ob = None \<and> MidPrice ob = None)"
proof -
  note s = book_shape [OF assms]
  show ?thesis
  proof (intro conjI allI impI)
    fix b bs
    assume "Bids ob = b # bs"
    then show "BestBid ob = Price b" and "Price b \<noteq> None"
      using s(1,5) by (simp_all add: best_price_def)
  next
    fix a as
    assume "Asks ob = a # as"
    then show "BestAsk ob = Price a" and "Price a \<noteq> None"
      using s(2,6) by (simp_all add: best_price_def)
  next
    fix b bs a as pb pa
    assume "Bids ob = b # bs \<and> Asks ob = a # as \<and> Price b = Some pb \<and> Price a = Some pa"
    then have "BestBid ob = Some pb" and "BestAsk ob = Some pa"
      using s(1,2) by (simp_all add: best_price_def)
    then show "Spread ob = Some (f_sub ops pa pb)"
      and "MidPrice ob = Some (f_div ops (f_add ops pb pa) (f_of_int ops 2))"
      using s(3,4) by (simp_all add: spread_of_def midPrice_of_def)
  next
    assume "Bids ob = []"
    then have "BestBid ob = None"
      using s(1) by (simp add: best_price_def)
    then show "BestBid ob = None" and "Spread ob = None" and "MidPrice ob = None"
      using s(3,4) by (simp_all add: spread_of_def midPrice_of_def)
  next
    assume "Asks ob = []"
    then have "BestAsk ob = None"
      using s(2) by (simp add: best_price_def)
    then show "BestAsk ob = None" and "Spread ob = None" and "MidPrice ob = None"
      using s(3,4) by (simp_all add: spread_of_def midPrice_of_def split: option.splits)
  qed
qed

theorem order_book_best_prices_witness:
  "(\<exists>ob. NormalizeOrderBook_coinbase rat_ops utc_seconds_Parse unmarshal_CoinbaseOrderBook
            sample_now coinbase_book_body = Inr ob
         \<and> BestBid ob = Some 50000 \<and> BestAsk ob = Some 50010
         \<and> Spread ob = Some 10 \<and> MidPrice ob = Some 50005)
   \<and> (\<exists>ob. NormalizeOrderBook_prime rat_ops utc_seconds_Parse unmarshal_PrimeOrderBook
            sample_now prime_book_body = Inr ob
         \<and> BestBid ob = Some 50000 \<and> BestAsk ob = Some 50010
         \<and> Spread ob = Some 10 \<and> MidPrice ob = Some 50005)
   \<and> (\<exists>ob. NormalizeOrderBook_coinbase rat_ops utc_seconds_Parse unmarshal_CoinbaseOrderBook
            sample_now coinbase_no_bids_body = Inr ob
         \<and> Bids ob = [] \<and> BestBid ob = None \<and> Spread ob = None \<and> MidPrice ob = None)
   \<and> (\<exists>ob. NormalizeOrderBook_prime rat_ops utc_seconds_Parse unmarshal_PrimeOrderBook
            sample_now prime_zero_bid_body = Inr ob
         \<and> Bids ob = [] \<and> BestBid ob = None \<and> Spread ob = None \<and> MidPrice ob = None)"
proof -
  let ?bid = "\<lparr>Price = Some (50000 :: rat), Quantity = Some (3 / 2 :: rat), OrderCount = None\<rparr>"
  let ?ask = "\<lparr>Price = Some (50010 :: rat), Quantity = Some (6 / 5 :: rat), OrderCount = None\<rparr>"
  let ?c = "\<lparr>VenueId = Some ''coinbase'', VenueSymbol = Some ''BTC-USD'',
             BookTimestamp = Some sample_now, Bids = [?bid], Asks = [?ask],
             BestBid = Some 50000, BestAsk = Some 50010, Spread = Some 10,
             MidPrice = Some 50005, Sequence = None\<rparr>"
  let ?p = "\<lparr>VenueId = Some ''prime'', VenueSymbol = Some ''BTC-USD'',
             BookTimestamp = Some sample_now, Bids = [?bid], Asks = [?ask],
             BestBid = Some 50000, BestAsk = Some 50010, Spread = Some 10,
             MidPrice = Some 50005, Sequence = Some 12345\<rparr>"
  let ?c' = "\<lparr>VenueId = Some ''coinbase'', VenueSymbol = Some ''BTC-USD'',
             BookTimestamp = Some sample_now, Bids = [], Asks = [?ask],
             BestBid = None, BestAsk = Some 50010, Spread = None,
             MidPrice = None, Sequence = None\<rparr>"
  let ?p' = "\<lparr>VenueId = Some ''prime'', VenueSymbol = Some ''BTC-USD'',
             BookTimestamp = Some sample_now, Bids = [], Asks = [?ask],
             BestBid = None, BestAsk = Some 50010, Spread = None,
             MidPrice = None, Sequence = Some 12345\<rparr>"
  have c: "NormalizeOrderBook_coinbase rat_ops utc_seconds_Parse
      unmarshal_CoinbaseOrderBook sample_now coinbase_book_body = Inr ?c"
    by code_simp
  have p: "NormalizeOrderBook_prime rat_ops utc_seconds_Parse
      unmarshal_PrimeOrderBook sample_now prime_book_body = Inr ?p"
    by code_simp
  have c': "NormalizeOrderBook_coinbase rat_ops utc_seconds_Parse
      unmarshal_CoinbaseOrderBook sample_now coinbase_no_bids_body = Inr ?c'"
    by code_simp
  have p': "NormalizeOrderBook_prime rat_ops utc_seconds_Parse
      unmarshal_PrimeOrderBook sample_now prime_zero_bid_body = Inr ?p'"
    by code_simp
  have a: "f_sub rat_ops 50010 50000 = 10"
    "f_div rat_ops (f_add rat_ops 50000 50010) (f_of_int rat_ops 2) = 50005"
    by (simp_all add: rat_ops_def)
  have "BestBid ?c = Some 50000 \<and> BestAsk ?c = Some 50010
        \<and> Spread ?c = Some 10 \<and> MidPrice ?c = Some 50005"
    using order_book_best_prices [OF disjI1 [OF c]] a
    by simp
  moreover
  have "BestBid ?p = Some 50000 \<and> BestAsk ?p = Some 50010
        \<and> Spread ?p = Some 10 \<and> MidPrice ?p = Some 50005"
    using order_book_best_prices [OF disjI2 [OF p]] a
    by simp
  moreover
  have "Bids ?c' = [] \<and> BestBid ?c' = None \<and> Spread ?c' = None \<and> MidPrice ?c' = None"
    using order_book_best_prices [OF disjI1 [OF c']]
    by simp
  moreover
  have "Bids ?p' = [] \<and> BestBid ?p' = None \<and> Spread ?p' = None \<and> MidPrice ?p' = None"
    using order_book_best_prices [OF disjI2 [OF p']]
    by simp
  ultimately show ?thesis
    using c p c' p' by blast
qed

end
